theory Spec2Isabelle
  imports Complex_Main "HOL-Library.Multiset"
begin

section \<open>A feed-forward network trainer: \<open>utils/neural_network.py\<close>\<close>

text \<open>
  The class \<open>NeuralNetwork\<close> is embedded method by method. Exceptions are values of
  \<open>error\<close>; a method that reads or writes \<open>self\<close> takes the network record and returns
  it next to its result. The float64 scalars of numpy are modelled by the reals: rounding
  is not modelled, and where numpy goes on with \<open>inf\<close> or \<open>nan\<close> after a RuntimeWarning
  (a division by zero, the logarithm of a non-positive number) the model stops with
  \<open>NonFinite\<close>, since the reals have no such value. Console output is not modelled.
\<close>

subsection \<open>Exceptions\<close>

datatype error =
    AssertionError
  | ValueError string
  | IndexError
  | KeyError string
  | TypeError
  | AttributeError
  | ZeroDivisionError
  | OverflowError
  | UnboundLocalError
  | NonFinite

definition bindE :: "error + 'a \<Rightarrow> ('a \<Rightarrow> error + 'b) \<Rightarrow> error + 'b" where
  "bindE m f = (case m of Inl e \<Rightarrow> Inl e | Inr x \<Rightarrow> f x)"

subsection \<open>Strings and list indexing\<close>

text \<open>\<open>str.lower()\<close> on ASCII text.\<close>

definition lower_char :: "char \<Rightarrow> char" where
  "lower_char c =
     (case map_of (zip ''ABCDEFGHIJKLMNOPQRSTUVWXYZ'' ''abcdefghijklmnopqrstuvwxyz'') c of
        Some d \<Rightarrow> d
      | None \<Rightarrow> c)"

definition lower :: "string \<Rightarrow> string" where
  "lower s = map lower_char s"

text \<open>\<open>xs[i]\<close> for a Python list: a negative index counts from the end, an index out of
  range raises IndexError.\<close>

definition py_index :: "'a list \<Rightarrow> int \<Rightarrow> error + 'a" where
  "py_index xs i =
     (if 0 \<le> i \<and> i < int (length xs) then Inr (xs ! nat i)
      else if i < 0 \<and> - int (length xs) \<le> i then Inr (xs ! nat (int (length xs) + i))
      else Inl IndexError)"

text \<open>\<open>xs[i] = v\<close>, with the same index rule.\<close>

definition py_setitem :: "'a list \<Rightarrow> int \<Rightarrow> 'a \<Rightarrow> error + 'a list" where
  "py_setitem xs i v =
     (if 0 \<le> i \<and> i < int (length xs) then Inr (xs[nat i := v])
      else if i < 0 \<and> - int (length xs) \<le> i then Inr (xs[nat (int (length xs) + i) := v])
      else Inl IndexError)"

subsection \<open>Arrays\<close>

text \<open>
  A two-dimensional float array is the list of its rows; a one-dimensional integer array
  (the labels) is a list of integers. The shape of an array is its number of rows and the
  length of its first row; an array without rows has shape \<open>(0, 0)\<close> here.
\<close>

type_synonym ndarray = "real list list"
type_synonym labels = "int list"

definition nrows :: "ndarray \<Rightarrow> nat" where
  "nrows a = length a"

definition ncols :: "ndarray \<Rightarrow> nat" where
  "ncols a = (case a of [] \<Rightarrow> 0 | r # _ \<Rightarrow> length r)"

definition shape :: "ndarray \<Rightarrow> nat \<times> nat" where
  "shape a = (nrows a, ncols a)"

definition zeros :: "nat \<Rightarrow> nat \<Rightarrow> ndarray" where
  "zeros r c = replicate r (replicate c 0)"

definition map_arr :: "(real \<Rightarrow> real) \<Rightarrow> ndarray \<Rightarrow> ndarray" where
  "map_arr f a = map (map f) a"

text \<open>numpy broadcasting of two axis lengths.\<close>

definition bc_dim :: "nat \<Rightarrow> nat \<Rightarrow> nat option" where
  "bc_dim m n = (if m = n then Some m else if m = 1 then Some n
                 else if n = 1 then Some m else None)"

text \<open>The entry of \<open>a\<close> that position \<open>(i, j)\<close> of a broadcast result reads: an axis of
  length one is repeated.\<close>

definition bc_elem :: "ndarray \<Rightarrow> nat \<Rightarrow> nat \<Rightarrow> real" where
  "bc_elem a i j = a ! (if nrows a = 1 then 0 else i) ! (if ncols a = 1 then 0 else j)"

text \<open>An elementwise binary operation on two 2-D arrays, with broadcasting.\<close>

definition broadcast :: "(real \<Rightarrow> real \<Rightarrow> real) \<Rightarrow> ndarray \<Rightarrow> ndarray \<Rightarrow> error + ndarray" where
  "broadcast f a b =
     (case (bc_dim (nrows a) (nrows b), bc_dim (ncols a) (ncols b)) of
        (Some r, Some c) \<Rightarrow>
          Inr (map (\<lambda>i. map (\<lambda>j. f (bc_elem a i j) (bc_elem b i j)) [0..<c]) [0..<r])
      | _ \<Rightarrow> Inl (ValueError ''operands could not be broadcast together''))"

text \<open>\<open>a.T\<close>.\<close>

definition transpose_arr :: "ndarray \<Rightarrow> ndarray" where
  "transpose_arr a = map (\<lambda>j. map (\<lambda>r. r ! j) a) [0..<ncols a]"

text \<open>\<open>np.dot(a, b)\<close> for 2-D arrays: the inner dimensions must agree.\<close>

definition dot :: "ndarray \<Rightarrow> ndarray \<Rightarrow> error + ndarray" where
  "dot a b =
     (if ncols a \<noteq> nrows b
      then Inl (ValueError ''shapes not aligned'')
      else Inr (map (\<lambda>r. map (\<lambda>j. \<Sum>k\<leftarrow>[0..<nrows b]. r ! k * b ! k ! j) [0..<ncols b]) a))"

text \<open>\<open>np.sum(a, axis=0, keepdims=True)\<close>: one row of column sums.\<close>

definition sum_axis0 :: "ndarray \<Rightarrow> ndarray" where
  "sum_axis0 a = [map (\<lambda>j. \<Sum>r\<leftarrow>a. r ! j) [0..<ncols a]]"

text \<open>\<open>np.sum(a)\<close>.\<close>

definition sum_all :: "ndarray \<Rightarrow> real" where
  "sum_all a = (\<Sum>r\<leftarrow>a. sum_list r)"

text \<open>\<open>a / n\<close> for an array and a non-negative Python integer \<open>n\<close>; numpy divides
  by zero into \<open>inf\<close> and \<open>nan\<close>.\<close>

definition div_count :: "ndarray \<Rightarrow> nat \<Rightarrow> error + ndarray" where
  "div_count a n = (if n = 0 then Inl NonFinite else Inr (map_arr (\<lambda>x. x / real n) a))"

text \<open>The same for a numpy scalar.\<close>

definition div_scalar :: "real \<Rightarrow> nat \<Rightarrow> error + real" where
  "div_scalar x n = (if n = 0 then Inl NonFinite else Inr (x / real n))"

text \<open>\<open>np.log(a)\<close>: \<open>-inf\<close> at zero and \<open>nan\<close> below it.\<close>

definition log_arr :: "ndarray \<Rightarrow> error + ndarray" where
  "log_arr a = (if \<exists>r\<in>set a. \<exists>x\<in>set r. x \<le> 0 then Inl NonFinite else Inr (map_arr ln a))"

text \<open>\<open>a / b\<close> elementwise with broadcasting: \<open>inf\<close> or \<open>nan\<close> where \<open>b\<close> is zero.\<close>

definition divide_arr :: "ndarray \<Rightarrow> ndarray \<Rightarrow> error + ndarray" where
  "divide_arr a b =
     (if \<exists>r\<in>set b. \<exists>x\<in>set r. x = 0 then bindE (broadcast (/) a b) (\<lambda>_. Inl NonFinite)
      else broadcast (/) a b)"

text \<open>A one-dimensional integer array as an operand of float arithmetic: in broadcasting
  against a 2-D array, shape \<open>(n,)\<close> counts as \<open>(1, n)\<close>.\<close>

definition as_row :: "labels \<Rightarrow> ndarray" where
  "as_row y = [map real_of_int y]"

text \<open>\<open>np.argmax(a, axis=1)\<close>: per row the first index of a largest entry; a row of
  length zero raises ValueError.\<close>

fun argmax_from :: "nat \<Rightarrow> real \<Rightarrow> nat \<Rightarrow> real list \<Rightarrow> nat" where
  "argmax_from best bv i [] = best"
| "argmax_from best bv i (x # xs) =
     (if bv < x then argmax_from i x (Suc i) xs else argmax_from best bv (Suc i) xs)"

definition argmax_row :: "real list \<Rightarrow> error + nat" where
  "argmax_row r =
     (case r of [] \<Rightarrow> Inl (ValueError ''attempt to get argmax of an empty sequence'')
      | x # xs \<Rightarrow> Inr (argmax_from 0 x 1 xs))"

fun mapE :: "('a \<Rightarrow> error + 'b) \<Rightarrow> 'a list \<Rightarrow> error + 'b list" where
  "mapE f [] = Inr []"
| "mapE f (x # xs) = bindE (f x) (\<lambda>v. bindE (mapE f xs) (\<lambda>vs. Inr (v # vs)))"

definition argmax_axis1 :: "ndarray \<Rightarrow> error + nat list" where
  "argmax_axis1 a = mapE argmax_row a"

subsection \<open>Activation functions\<close>

text \<open>\<open>np.max(A, axis=-1, keepdims=True)\<close> of one row, which must not be empty.\<close>

definition row_max :: "real list \<Rightarrow> real" where
  "row_max r = fold max (tl r) (hd r)"

definition softmax_row :: "real list \<Rightarrow> error + real list" where
  "softmax_row r =
     (if r = [] then Inl (ValueError ''zero-size array to reduction operation maximum'')
      else let exps = map (\<lambda>x. exp (x - row_max r)) r
           in Inr (map (\<lambda>e. e / sum_list exps) exps))"

text \<open>\<open>NeuralNetwork.activate\<close>; it does not touch \<open>self\<close>.\<close>

definition activate :: "ndarray \<Rightarrow> string \<Rightarrow> error + ndarray" where
  "activate A activation =
     (if lower activation = ''sigmoid'' then Inr (map_arr (\<lambda>x. 1 / (1 + exp (- x))) A)
      else if lower activation = ''relu'' then Inr (map_arr (\<lambda>x. max 0 x) A)
      else if lower activation = ''tanh'' then Inr (map_arr tanh A)
      else if lower activation = ''softmax'' then mapE softmax_row A
      else if lower activation = ''identity'' then Inr A
      else Inl (ValueError (''Unsupported activation function: '' @ activation)))"

text \<open>The derivative is an array, or the Python scalar \<open>1\<close> for identity and softmax.\<close>

datatype operand = Scalar real | Array ndarray

text \<open>\<open>NeuralNetwork._activate_derivative\<close>; it does not touch \<open>self\<close>.\<close>

definition activate_derivative :: "ndarray \<Rightarrow> ndarray \<Rightarrow> string \<Rightarrow> error + operand" where
  "activate_derivative A H activation =
     (if lower activation = ''sigmoid'' then Inr (Array (map_arr (\<lambda>h. h * (1 - h)) H))
      else if lower activation = ''relu''
        then Inr (Array (map_arr (\<lambda>a. if a > 0 then 1 else 0) A))
      else if lower activation = ''tanh'' then Inr (Array (map_arr (\<lambda>h. 1 - h ^ 2) H))
      else if lower activation = ''identity'' then Inr (Scalar 1)
      else if lower activation = ''softmax'' then Inr (Scalar 1)
      else Inl (ValueError (''Unsupported activation function: '' @ activation)))"

text \<open>\<open>a * d\<close> where \<open>d\<close> is a derivative: by a scalar, or elementwise with broadcasting.\<close>

definition multiply :: "ndarray \<Rightarrow> operand \<Rightarrow> error + ndarray" where
  "multiply a d = (case d of Scalar s \<Rightarrow> Inr (map_arr (\<lambda>x. x * s) a)
                   | Array b \<Rightarrow> broadcast (*) a b)"

subsection \<open>The network object\<close>

text \<open>
  The fields of \<open>self\<close>. The optimizer classes live in \<open>utils/optimizer.py\<close>, which is not
  among the sources; an optimizer object is a value of the type parameter \<open>'o\<close>, and its
  constructor and its \<open>update\<close> method are parameters of \<open>set_optimizer\<close> and \<open>train\<close>.
\<close>

record 'o network =
  layer_sizes :: "nat list"
  L :: nat
  activation_functions :: "string list"
  LOG_EACH :: bool
  W :: "ndarray list"
  B :: "ndarray list"
  weight_decay :: real
  optimizer :: "'o option"

text \<open>A method takes \<open>self\<close> and returns its result, or the exception it raised, together
  with \<open>self\<close> as the call leaves it.\<close>

type_synonym ('o, 'a) py_method = "'o network \<Rightarrow> (error + 'a) \<times> 'o network"

definition returnM :: "'a \<Rightarrow> ('o, 'a) py_method" where
  "returnM x = (\<lambda>self. (Inr x, self))"

definition raise :: "error \<Rightarrow> ('o, 'a) py_method" where
  "raise e = (\<lambda>self. (Inl e, self))"

definition bindM :: "('o, 'a) py_method \<Rightarrow> ('a \<Rightarrow> ('o, 'b) py_method) \<Rightarrow> ('o, 'b) py_method" where
  "bindM m f = (\<lambda>self. case m self of (Inl e, self') \<Rightarrow> (Inl e, self')
                                    | (Inr x, self') \<Rightarrow> f x self')"

text \<open>A computation that reads fields of \<open>self\<close> and assigns none.\<close>

definition reading :: "('o network \<Rightarrow> error + 'a) \<Rightarrow> ('o, 'a) py_method" where
  "reading f = (\<lambda>self. (f self, self))"

fun foldE :: "('i \<Rightarrow> 's \<Rightarrow> error + 's) \<Rightarrow> 'i list \<Rightarrow> 's \<Rightarrow> error + 's" where
  "foldE f [] s = Inr s"
| "foldE f (i # is) s = bindE (f i s) (foldE f is)"

subsection \<open>One-hot labels\<close>

text \<open>
  \<open>NeuralNetwork.one_hot\<close>: \<open>np.zeros((y.size, self.layer_sizes[-1]))\<close>, then
  \<open>one_hot_y[np.arange(y.size), y] = 1\<close>. The fancy index raises IndexError when a
  label is out of bounds for the second axis; a negative label counts from the end.
\<close>

definition one_hot_row :: "nat \<Rightarrow> int \<Rightarrow> real list" where
  "one_hot_row C v = (replicate C 0)[nat (if v < 0 then v + int C else v) := 1]"

definition one_hot :: "labels \<Rightarrow> ('o, ndarray) py_method" where
  "one_hot y = reading (\<lambda>self.
     bindE (py_index (layer_sizes self) (- 1)) (\<lambda>C.
     if \<forall>v\<in>set y. - int C \<le> v \<and> v < int C
     then Inr (map (one_hot_row C) y)
     else Inl IndexError))"

subsection \<open>Forward propagation\<close>

text \<open>One turn of the loop of \<open>forward_propagation\<close>, on the lists \<open>H\<close> and \<open>A\<close>.\<close>

definition fp_step ::
  "'o network \<Rightarrow> nat \<Rightarrow> ndarray list \<times> ndarray list \<Rightarrow> error + ndarray list \<times> ndarray list" where
  "fp_step self i HA = (case HA of (H, A) \<Rightarrow>
     bindE (py_index H (int i)) (\<lambda>Hi.
     bindE (py_index (W self) (int i)) (\<lambda>Wi.
     bindE (dot Hi (transpose_arr Wi)) (\<lambda>d.
     bindE (py_index (B self) (int i)) (\<lambda>Bi.
     bindE (broadcast (+) d Bi) (\<lambda>Ai.
     bindE (py_index (A @ [Ai]) (int i)) (\<lambda>Ai'.
     bindE (py_index (activation_functions self) (int i)) (\<lambda>act.
     bindE (activate Ai' act) (\<lambda>Hn.
     Inr (H @ [Hn], A @ [Ai]))))))))))"

text \<open>\<open>NeuralNetwork.forward_propagation\<close> and \<open>NeuralNetwork.predict\<close>.\<close>

definition forward_propagation :: "ndarray \<Rightarrow> ('o, ndarray list \<times> ndarray list) py_method" where
  "forward_propagation X = reading (\<lambda>self. foldE (fp_step self) [0..<L self] ([X], []))"

definition predict :: "ndarray \<Rightarrow> ('o, ndarray) py_method" where
  "predict X = bindM (forward_propagation X) (\<lambda>HA. reading (\<lambda>self. py_index (fst HA) (- 1)))"

subsection \<open>Loss\<close>

definition epsilon :: real where
  "epsilon = 1 / 10 ^ 15"

text \<open>\<open>NeuralNetwork.compute_loss\<close>. A label vector of the model is one-dimensional, so
  \<open>y.ndim == 1\<close> holds and the labels are expanded first; \<open>m\<close> is \<open>y.shape[0]\<close>.\<close>

definition compute_loss :: "ndarray \<Rightarrow> labels \<Rightarrow> string \<Rightarrow> ('o, real) py_method" where
  "compute_loss H_final y loss_type =
     bindM (one_hot y) (\<lambda>y1. reading (\<lambda>self.
       let m = nrows y1 in
       if lower loss_type = ''cross_entropy'' then
         bindE (log_arr (map_arr (\<lambda>x. x + epsilon) H_final)) (\<lambda>lg.
         bindE (broadcast (*) y1 lg) (\<lambda>p.
         div_scalar (- sum_all p) m))
       else if lower loss_type = ''mse'' \<or> lower loss_type = ''mean_squared_error'' then
         bindE (broadcast (-) H_final y1) (\<lambda>d.
         div_scalar (sum_all (map_arr (\<lambda>x. x ^ 2) d)) (2 * m))
       else Inl (ValueError (''Unsupported loss function: '' @ loss_type))))"

text \<open>\<open>NeuralNetwork._loss_derivative\<close>. The cross-entropy branch divides the label
  vector as it comes; the mean-squared-error branch expands it first.\<close>

definition loss_derivative :: "ndarray \<Rightarrow> labels \<Rightarrow> string \<Rightarrow> ('o, ndarray) py_method" where
  "loss_derivative y_pred y loss_type =
     (if lower loss_type = ''cross_entropy'' then
        reading (\<lambda>self. divide_arr (as_row (map uminus y)) (map_arr (\<lambda>x. x + epsilon) y_pred))
      else if lower loss_type = ''mse'' \<or> lower loss_type = ''mean_squared_error'' then
        bindM (one_hot y) (\<lambda>y1. reading (\<lambda>self.
          let m = nrows y1 in
          bindE (broadcast (-) y_pred y1) (\<lambda>d. div_count d m)))
      else raise (ValueError (''Unsupported loss function: '' @ loss_type)))"

subsection \<open>Accuracy\<close>

text \<open>\<open>np.mean(y_pred == y)\<close> for two 1-D integer arrays: the comparison broadcasts (a
  mismatch of lengths is taken to raise, as it does in current numpy), and the mean of no
  entries is \<open>nan\<close>.\<close>

definition mean_equal :: "nat list \<Rightarrow> labels \<Rightarrow> error + real" where
  "mean_equal y_pred y =
     (case bc_dim (length y_pred) (length y) of
        None \<Rightarrow> Inl (ValueError ''operands could not be broadcast together'')
      | Some n \<Rightarrow>
          div_scalar
            (real (length (filter (\<lambda>i. int (y_pred ! (if length y_pred = 1 then 0 else i))
                                         = y ! (if length y = 1 then 0 else i)) [0..<n])))
            n)"

text \<open>\<open>NeuralNetwork.compute_accuracy\<close>.\<close>

definition compute_accuracy :: "ndarray \<Rightarrow> labels \<Rightarrow> ('o, real) py_method" where
  "compute_accuracy X y =
     bindM (predict X) (\<lambda>P. reading (\<lambda>self.
       bindE (argmax_axis1 P) (\<lambda>y_pred. mean_equal y_pred y)))"

subsection \<open>Backpropagation\<close>

text \<open>The output-layer error \<open>dA\<close> of \<open>back_propagation\<close> (the \<open>if\<close>/\<open>else\<close> after the
  assertions). The \<open>and\<close> reads \<open>self.activation_functions[-1]\<close> only when the loss is
  cross-entropy.\<close>

definition output_error ::
  "labels \<Rightarrow> ndarray list \<Rightarrow> ndarray list \<Rightarrow> string \<Rightarrow> ('o, ndarray) py_method" where
  "output_error y H A loss_type =
     bindM (reading (\<lambda>self.
       if lower loss_type = ''cross_entropy''
       then bindE (py_index (activation_functions self) (- 1)) (\<lambda>a. Inr (lower a = ''softmax''))
       else Inr False)) (\<lambda>shortcut.
     if shortcut then
       bindM (reading (\<lambda>self. py_index H (- 1))) (\<lambda>H_last.
       bindM (one_hot y) (\<lambda>y1.
       reading (\<lambda>self. broadcast (-) H_last y1)))
     else
       bindM (reading (\<lambda>self. py_index H (- 1))) (\<lambda>H_last.
       bindM (loss_derivative H_last y loss_type) (\<lambda>dH.
       reading (\<lambda>self.
         bindE (py_index A (- 1)) (\<lambda>A_last.
         bindE (py_index H (- 1)) (\<lambda>H_last'.
         bindE (py_index (activation_functions self) (- 1)) (\<lambda>act.
         bindE (activate_derivative A_last H_last' act) (\<lambda>d.
         multiply dH d))))))))"

text \<open>\<open>np.dot(dA.T, Hk) / N\<close> and \<open>np.sum(dA, axis=0, keepdims=True) / N\<close>.\<close>

definition weight_gradient :: "ndarray \<Rightarrow> ndarray \<Rightarrow> nat \<Rightarrow> error + ndarray" where
  "weight_gradient dA Hk N = bindE (dot (transpose_arr dA) Hk) (\<lambda>g. div_count g N)"

definition bias_gradient :: "ndarray \<Rightarrow> nat \<Rightarrow> error + ndarray" where
  "bias_gradient dA N = div_count (sum_axis0 dA) N"

text \<open>One turn of the loop \<open>for k in range(self.L-2, -1, -1)\<close>, on \<open>dA\<close>, \<open>dW\<close> and \<open>dB\<close>.
  The lists \<open>dW\<close> and \<open>dB\<close> start as \<open>[None] * self.L\<close>: their entries are options.\<close>

definition bp_step ::
  "'o network \<Rightarrow> ndarray list \<Rightarrow> ndarray list \<Rightarrow> nat \<Rightarrow> nat
   \<Rightarrow> ndarray \<times> ndarray option list \<times> ndarray option list
   \<Rightarrow> error + ndarray \<times> ndarray option list \<times> ndarray option list" where
  "bp_step self H A N k st = (case st of (dA, dW, dB) \<Rightarrow>
     bindE (py_index (W self) (int k + 1)) (\<lambda>W_next.
     bindE (dot dA W_next) (\<lambda>d.
     bindE (py_index A (int k)) (\<lambda>Ak.
     bindE (py_index H (int k + 1)) (\<lambda>H_next.
     bindE (py_index (activation_functions self) (int k)) (\<lambda>act.
     bindE (activate_derivative Ak H_next act) (\<lambda>der.
     bindE (multiply d der) (\<lambda>dA'.
     bindE (py_index H (int k)) (\<lambda>Hk.
     bindE (weight_gradient dA' Hk N) (\<lambda>dWk.
     bindE (bias_gradient dA' N) (\<lambda>dBk.
     bindE (py_setitem dW (int k) (Some dWk)) (\<lambda>dW'.
     bindE (py_setitem dB (int k) (Some dBk)) (\<lambda>dB'.
     Inr (dA', dW', dB'))))))))))))))"

text \<open>The gradients of all layers before weight decay: the output layer, then the loop.\<close>

definition layer_gradients ::
  "'o network \<Rightarrow> nat \<Rightarrow> ndarray list \<Rightarrow> ndarray list \<Rightarrow> ndarray
   \<Rightarrow> error + ndarray option list \<times> ndarray option list" where
  "layer_gradients self N H A dA =
     bindE (py_index H (- 2)) (\<lambda>H_prev.
     bindE (weight_gradient dA H_prev N) (\<lambda>dW_last.
     bindE (py_setitem (replicate (L self) None) (- 1) (Some dW_last)) (\<lambda>dW.
     bindE (bias_gradient dA N) (\<lambda>dB_last.
     bindE (py_setitem (replicate (L self) None) (- 1) (Some dB_last)) (\<lambda>dB.
     bindE (foldE (bp_step self H A N) (rev [0..<L self - 1]) (dA, dW, dB)) (\<lambda>st.
     Inr (snd st)))))))"

text \<open>\<open>a += b\<close> on arrays: \<open>b\<close> is broadcast, and the result must have the shape of \<open>a\<close>.\<close>

definition iadd :: "ndarray \<Rightarrow> ndarray \<Rightarrow> error + ndarray" where
  "iadd a b = bindE (broadcast (+) a b) (\<lambda>c.
     if shape c = shape a then Inr c
     else Inl (ValueError ''non-broadcastable output operand''))"

text \<open>\<open>dW[i] += self.weight_decay * self.W[i]\<close>; on an entry still \<open>None\<close> it would raise
  TypeError.\<close>

definition decay_step ::
  "'o network \<Rightarrow> nat \<Rightarrow> ndarray option list \<Rightarrow> error + ndarray option list" where
  "decay_step self i dW =
     bindE (py_index dW (int i)) (\<lambda>d.
     bindE (py_index (W self) (int i)) (\<lambda>Wi.
     case d of None \<Rightarrow> Inl TypeError
     | Some di \<Rightarrow>
         bindE (iadd di (map_arr (\<lambda>w. weight_decay self * w) Wi)) (\<lambda>r.
         py_setitem dW (int i) (Some r))))"

definition apply_weight_decay ::
  "'o network \<Rightarrow> ndarray option list \<Rightarrow> error + ndarray option list" where
  "apply_weight_decay self dW =
     (if weight_decay self > 0 then foldE (decay_step self) [0..<length (W self)] dW
      else Inr dW)"

text \<open>The lists returned hold arrays: every entry has been assigned by then (lemmas
  \<open>layer_gradients_assigned\<close> and \<open>weight_decay_assigned\<close> below), so \<open>assigned\<close>
  never yields TypeError there.\<close>

definition assigned :: "ndarray option list \<Rightarrow> error + ndarray list" where
  "assigned xs = (case those xs of None \<Rightarrow> Inl TypeError | Some ys \<Rightarrow> Inr ys)"

text \<open>\<open>NeuralNetwork.back_propagation\<close>: the two assertions, the output-layer error, the
  gradients of the layers, the weight decay.\<close>

definition back_propagation ::
  "ndarray \<Rightarrow> labels \<Rightarrow> ndarray list \<Rightarrow> ndarray list \<Rightarrow> string
   \<Rightarrow> ('o, ndarray list \<times> ndarray list) py_method" where
  "back_propagation X y H A loss_type =
     bindM (reading (\<lambda>self.
       if length H = L self + 1 \<and> length A = L self then Inr () else Inl AssertionError)) (\<lambda>_.
     bindM (reading (\<lambda>self.
       if nrows X = length y \<and> L self = length A \<and> L self + 1 = length H
       then Inr () else Inl AssertionError)) (\<lambda>_.
     bindM (output_error y H A loss_type) (\<lambda>dA.
     bindM (reading (\<lambda>self. layer_gradients self (nrows X) H A dA)) (\<lambda>g.
     bindM (reading (\<lambda>self. apply_weight_decay self (fst g))) (\<lambda>dW.
     reading (\<lambda>self.
       bindE (assigned dW) (\<lambda>dW'.
       bindE (assigned (snd g)) (\<lambda>dB'.
       Inr (dW', dB')))))))))"

subsection \<open>Construction\<close>

text \<open>
  \<open>NeuralNetwork.__init__\<close>. The random draws are a parameter: \<open>draw i r c\<close> is the
  array that \<open>np.random.uniform(-0.5, 0.5, (r, c))\<close> or \<open>np.random.randn(r, c)\<close> returns
  for layer \<open>i\<close>. In the Xavier branch \<open>2.0 / (r + c)\<close> is a division of Python numbers,
  which raises ZeroDivisionError at zero. The activation names are stored as they come.
\<close>

definition new_network ::
  "nat list \<Rightarrow> string list \<Rightarrow> real \<Rightarrow> bool \<Rightarrow> ndarray list \<Rightarrow> 'o network" where
  "new_network layer_sizes' activation_functions' weight_decay' LOG_EACH' W' =
     \<lparr>layer_sizes = layer_sizes', L = length layer_sizes' - 1,
      activation_functions = activation_functions', LOG_EACH = LOG_EACH', W = W',
      B = map (\<lambda>i. [replicate (layer_sizes' ! i) 0]) [1..<length layer_sizes'],
      weight_decay = weight_decay', optimizer = None\<rparr>"

definition NeuralNetwork_init ::
  "(nat \<Rightarrow> nat \<Rightarrow> nat \<Rightarrow> ndarray) \<Rightarrow> nat list \<Rightarrow> string list \<Rightarrow> real \<Rightarrow> string \<Rightarrow> bool
   \<Rightarrow> error + 'o network" where
  "NeuralNetwork_init draw layer_sizes' activation_functions' weight_decay' weight_init LOG_EACH' =
     (if length layer_sizes' \<noteq> length activation_functions' + 1 then Inl AssertionError
      else if lower weight_init = ''random'' then
        Inr (new_network layer_sizes' activation_functions' weight_decay' LOG_EACH'
               (map (\<lambda>i. draw i (layer_sizes' ! i) (layer_sizes' ! (i - 1)))
                  [1..<length layer_sizes']))
      else if lower weight_init = ''xavier'' then
        (if \<exists>i\<in>set [1..<length layer_sizes']. layer_sizes' ! i + layer_sizes' ! (i - 1) = 0
         then Inl ZeroDivisionError
         else Inr (new_network layer_sizes' activation_functions' weight_decay' LOG_EACH'
               (map (\<lambda>i. map_arr
                       (\<lambda>x. x * sqrt (2 / real (layer_sizes' ! i + layer_sizes' ! (i - 1))))
                       (draw i (layer_sizes' ! i) (layer_sizes' ! (i - 1))))
                  [1..<length layer_sizes'])))
      else Inl (ValueError (''Unsupported weight initialization: '' @ weight_init)))"

subsection \<open>Attaching an optimizer\<close>

datatype pyval = Str string | Num real | Bool bool

type_synonym pydict = "string \<rightharpoonup> pyval"

datatype optimizer_class =
  SGDOptimizer | MomentumOptimizer | NesterovOptimizer | RMSpropOptimizer | AdamOptimizer
  | NadamOptimizer

definition optimizer_map :: "string \<rightharpoonup> optimizer_class" where
  "optimizer_map = map_of
     [(''sgd'', SGDOptimizer), (''momentum'', MomentumOptimizer),
      (''nesterov'', NesterovOptimizer), (''rmsprop'', RMSpropOptimizer),
      (''adam'', AdamOptimizer), (''nadam'', NadamOptimizer)]"

text \<open>
  What \<open>utils/optimizer.py\<close> provides: \<open>opt_new cls W B kwargs\<close> is the constructor call
  \<open>cls(W, B, **kwargs)\<close>, and \<open>opt_update opt W B dW dB step\<close> is
  \<open>opt.update(W, B, dW, dB, step)\<close>, returning the optimizer as the call leaves it and
  the new \<open>(W, B)\<close>.
\<close>

record 'o optimizer_module =
  opt_new :: "optimizer_class \<Rightarrow> ndarray list \<Rightarrow> ndarray list \<Rightarrow> pydict \<Rightarrow> error + 'o"
  opt_update :: "'o \<Rightarrow> ndarray list \<Rightarrow> ndarray list \<Rightarrow> ndarray list \<Rightarrow> ndarray list \<Rightarrow> nat
                 \<Rightarrow> error + 'o \<times> ndarray list \<times> ndarray list"

text \<open>\<open>NeuralNetwork.set_optimizer\<close>. \<open>optimizer_dict['name']\<close> raises KeyError without
  the key, and \<open>.lower()\<close> raises AttributeError on a value that is no string.\<close>

definition set_optimizer :: "'o optimizer_module \<Rightarrow> pydict \<Rightarrow> ('o, unit) py_method" where
  "set_optimizer om optimizer_dict = (\<lambda>self.
     case optimizer_dict ''name'' of
       None \<Rightarrow> (Inl (KeyError ''name''), self)
     | Some (Str name) \<Rightarrow>
         (case optimizer_map (lower name) of
            None \<Rightarrow> (Inl (ValueError (''Unsupported optimizer: '' @ name)), self)
          | Some cls \<Rightarrow>
              (case opt_new om cls (W self) (B self)
                      (optimizer_dict(''LOG_EACH'' \<mapsto> Bool (LOG_EACH self))) of
                 Inl e \<Rightarrow> (Inl e, self)
               | Inr opt \<Rightarrow> (Inr (), self\<lparr>optimizer := Some opt\<rparr>)))
     | Some _ \<Rightarrow> (Inl AttributeError, self))"

subsection \<open>Training\<close>

text \<open>The history dictionary: \<open>val_loss\<close> and \<open>val_acc\<close> are \<open>None\<close> when \<open>X_val\<close> is.\<close>

record history =
  train_loss :: "real list"
  train_acc :: "real list"
  val_loss :: "real list option"
  val_acc :: "real list option"

text \<open>\<open>if self.optimizer is None: self.set_optimizer({'name':'sgd', 'learning_rate':0.01})\<close>\<close>

definition default_optimizer_dict :: pydict where
  "default_optimizer_dict = [''name'' \<mapsto> Str ''sgd'', ''learning_rate'' \<mapsto> Num (1 / 100)]"

definition ensure_optimizer :: "'o optimizer_module \<Rightarrow> ('o, unit) py_method" where
  "ensure_optimizer om = (\<lambda>self.
     case optimizer self of
       None \<Rightarrow> set_optimizer om default_optimizer_dict self
     | Some opt \<Rightarrow> (Inr (), self))"

text \<open>\<open>int(np.ceil(num_datapoints / batch_size))\<close>: a division of Python integers.\<close>

definition num_batches_of :: "nat \<Rightarrow> int \<Rightarrow> error + int" where
  "num_batches_of num_datapoints batch_size =
     (if batch_size = 0 then Inl ZeroDivisionError
      else Inr (\<lceil>real num_datapoints / real_of_int batch_size\<rceil>))"

text \<open>\<open>int(np.log10(v) + 1)\<close>: \<open>np.log10\<close> is \<open>-inf\<close> at zero and \<open>nan\<close> below, and \<open>int\<close>
  raises OverflowError on the first and ValueError on the second. The value is the width
  of a printed field and is not kept.\<close>

definition spacer :: "int \<Rightarrow> error + unit" where
  "spacer v = (if v = 0 then Inl OverflowError
               else if v < 0 then Inl (ValueError ''cannot convert float NaN to integer'')
               else Inr ())"

text \<open>\<open>a[permutation]\<close>: indexing by an array of non-negative indices.\<close>

definition take_indices :: "'a list \<Rightarrow> nat list \<Rightarrow> error + 'a list" where
  "take_indices xs p =
     (if \<forall>i\<in>set p. i < length xs then Inr (map (\<lambda>i. xs ! i) p) else Inl IndexError)"

text \<open>The shuffle at the head of every epoch; \<open>permutation\<close> is what
  \<open>np.random.permutation(num_datapoints)\<close> returned.\<close>

definition shuffle :: "nat list \<Rightarrow> ndarray \<Rightarrow> labels \<Rightarrow> error + ndarray \<times> labels" where
  "shuffle permutation X_train y_train =
     bindE (take_indices X_train permutation) (\<lambda>X'.
     bindE (take_indices y_train permutation) (\<lambda>y'.
     Inr (X', y')))"

text \<open>\<open>a[start_idx:end_idx]\<close> with non-negative bounds.\<close>

definition slice :: "'a list \<Rightarrow> nat \<Rightarrow> nat \<Rightarrow> 'a list" where
  "slice xs start_idx end_idx = take (end_idx - start_idx) (drop start_idx xs)"

text \<open>
  The validation data may be \<open>None\<close>. \<open>self.predict(None)\<close> raises TypeError in
  \<open>np.dot\<close> (on a network without layers, or with an empty weight array, it is the next
  use of its result that raises); \<open>compute_loss(_, None, _)\<close> raises AttributeError at
  \<open>y.ndim\<close>; in \<open>compute_accuracy(X, None)\<close> the comparison \<open>y_pred == None\<close> is false
  everywhere.
\<close>

definition predict_val :: "ndarray option \<Rightarrow> ('o, ndarray) py_method" where
  "predict_val X_val = (case X_val of None \<Rightarrow> raise TypeError | Some X \<Rightarrow> predict X)"

definition compute_loss_val :: "ndarray option \<Rightarrow> labels option \<Rightarrow> string \<Rightarrow> ('o, real) py_method" where
  "compute_loss_val X_val y_val loss_type =
     bindM (predict_val X_val) (\<lambda>P.
     case y_val of None \<Rightarrow> raise AttributeError | Some y \<Rightarrow> compute_loss P y loss_type)"

definition compute_accuracy_val :: "ndarray option \<Rightarrow> labels option \<Rightarrow> ('o, real) py_method" where
  "compute_accuracy_val X_val y_val =
     bindM (predict_val X_val) (\<lambda>P. reading (\<lambda>self.
       bindE (argmax_axis1 P) (\<lambda>y_pred.
       case y_val of
         Some y \<Rightarrow> mean_equal y_pred y
       | None \<Rightarrow> div_scalar 0 (length y_pred))))"

text \<open>\<open>self.W, self.B = self.optimizer.update(self.W, self.B, dW, dB, iteration)\<close>\<close>

definition optimizer_step ::
  "'o optimizer_module \<Rightarrow> ndarray list \<Rightarrow> ndarray list \<Rightarrow> nat \<Rightarrow> ('o, unit) py_method" where
  "optimizer_step om dW dB iteration = (\<lambda>self.
     case optimizer self of
       None \<Rightarrow> (Inl AttributeError, self)
     | Some opt \<Rightarrow>
         (case opt_update om opt (W self) (B self) dW dB iteration of
            Inl e \<Rightarrow> (Inl e, self)
          | Inr (opt', W', B') \<Rightarrow> (Inr (), self\<lparr>W := W', B := B', optimizer := Some opt'\<rparr>)))"

fun foldM :: "('i \<Rightarrow> 's \<Rightarrow> ('o, 's) py_method) \<Rightarrow> 'i list \<Rightarrow> 's \<Rightarrow> ('o, 's) py_method" where
  "foldM f [] s = returnM s"
| "foldM f (i # is) s = bindM (f i s) (foldM f is)"

text \<open>The logging branch of a batch: \<open>iteration % log_every\<close> raises ZeroDivisionError
  when \<open>log_every\<close> is zero; the losses are computed and only printed.\<close>

definition log_step ::
  "ndarray option \<Rightarrow> labels option \<Rightarrow> string \<Rightarrow> int \<Rightarrow> nat \<Rightarrow> ndarray list \<Rightarrow> labels
   \<Rightarrow> ('o, unit) py_method" where
  "log_step X_val y_val loss_type log_every iteration H y_batch =
     (if log_every = 0 then raise ZeroDivisionError
      else if int iteration mod log_every = 0 then
        bindM (reading (\<lambda>self. py_index H (- 1))) (\<lambda>H_last.
        bindM (compute_loss H_last y_batch loss_type) (\<lambda>train_loss'.
        if X_val \<noteq> None \<and> y_val \<noteq> None
        then bindM (compute_loss_val X_val y_val loss_type) (\<lambda>val_loss'. returnM ())
        else returnM ()))
      else returnM ())"

text \<open>
  One turn of the batch loop. Its state is \<open>iteration\<close> and the variables \<open>H\<close>,
  \<open>X_batch\<close>, \<open>y_batch\<close> that the end of the epoch reads after the loop (\<open>None\<close> while
  unbound). The loop runs only when \<open>num_batches\<close> is positive, hence with a positive
  \<open>batch_size\<close>, so the slice bounds are natural numbers.
\<close>

definition batch_step ::
  "'o optimizer_module \<Rightarrow> ndarray \<Rightarrow> labels \<Rightarrow> ndarray option \<Rightarrow> labels option \<Rightarrow> nat
   \<Rightarrow> string \<Rightarrow> int \<Rightarrow> nat \<Rightarrow> nat \<times> (ndarray list \<times> ndarray \<times> labels) option
   \<Rightarrow> ('o, nat \<times> (ndarray list \<times> ndarray \<times> labels) option) py_method" where
  "batch_step om X_train y_train X_val y_val batch_size loss_type log_every batch st =
     (let iteration = fst st;
          num_datapoints = nrows X_train;
          start_idx = batch * batch_size;
          end_idx = min ((batch + 1) * batch_size) num_datapoints;
          X_batch = slice X_train start_idx end_idx;
          y_batch = slice y_train start_idx end_idx
      in
      bindM (forward_propagation X_batch) (\<lambda>HA.
      bindM (back_propagation X_batch y_batch (fst HA) (snd HA) loss_type) (\<lambda>g.
      bindM (optimizer_step om (fst g) (snd g) iteration) (\<lambda>_.
      bindM (log_step X_val y_val loss_type log_every iteration (fst HA) y_batch) (\<lambda>_.
      returnM (iteration + 1, Some (fst HA, X_batch, y_batch)))))))"

text \<open>The end of an epoch: the metrics, the history, the callback. The callback's
  \<open>on_epoch_end\<close> is a parameter.\<close>

definition epoch_end ::
  "(real \<Rightarrow> real \<Rightarrow> real \<Rightarrow> real \<Rightarrow> error + unit) option \<Rightarrow> ndarray \<Rightarrow> labels
   \<Rightarrow> ndarray option \<Rightarrow> labels option \<Rightarrow> string \<Rightarrow> (ndarray list \<times> ndarray \<times> labels) option
   \<Rightarrow> history \<Rightarrow> ('o, history) py_method" where
  "epoch_end callback X_train y_train X_val y_val loss_type bound hist =
     (case bound of
        None \<Rightarrow> raise UnboundLocalError
      | Some (H, X_batch, y_batch) \<Rightarrow>
          bindM (reading (\<lambda>self. py_index H (- 1))) (\<lambda>H_last.
          bindM (compute_loss H_last y_batch loss_type) (\<lambda>train_loss'.
          bindM (compute_accuracy X_batch y_batch) (\<lambda>train_acc'.
          bindM (compute_loss_val X_val y_val loss_type) (\<lambda>val_loss'.
          bindM (compute_accuracy_val X_val y_val) (\<lambda>val_acc'.
          case (val_loss hist, val_acc hist) of
            (Some vl, Some va) \<Rightarrow>
              (let hist' = \<lparr>train_loss = train_loss hist @ [train_loss'],
                            train_acc = train_acc hist @ [train_acc'],
                            val_loss = Some (vl @ [val_loss']),
                            val_acc = Some (va @ [val_acc'])\<rparr>
               in case callback of
                    None \<Rightarrow> returnM hist'
                  | Some on_epoch_end \<Rightarrow>
                      bindM (compute_accuracy X_train y_train) (\<lambda>a.
                      bindM (compute_loss_val X_val y_val loss_type) (\<lambda>vl'.
                      bindM (compute_accuracy_val X_val y_val) (\<lambda>va'.
                      bindM (reading (\<lambda>self. on_epoch_end train_loss' a vl' va')) (\<lambda>_.
                      returnM hist')))))
          | _ \<Rightarrow> raise AttributeError))))))"

text \<open>One epoch: shuffle, the batches, the end of the epoch. \<open>perms epoch\<close> is the
  permutation drawn in that epoch.\<close>

definition epoch_step ::
  "'o optimizer_module \<Rightarrow> (nat \<Rightarrow> nat list)
   \<Rightarrow> (real \<Rightarrow> real \<Rightarrow> real \<Rightarrow> real \<Rightarrow> error + unit) option
   \<Rightarrow> ndarray option \<Rightarrow> labels option \<Rightarrow> nat \<Rightarrow> int \<Rightarrow> string \<Rightarrow> int \<Rightarrow> nat
   \<Rightarrow> ndarray \<times> labels \<times> nat \<times> (ndarray list \<times> ndarray \<times> labels) option \<times> history
   \<Rightarrow> ('o, ndarray \<times> labels \<times> nat \<times> (ndarray list \<times> ndarray \<times> labels) option \<times> history)
        py_method" where
  "epoch_step om perms callback X_val y_val batch_size num_batches loss_type log_every epoch st =
     (case st of (X_train, y_train, iteration, bound, hist) \<Rightarrow>
        bindM (reading (\<lambda>self. shuffle (perms epoch) X_train y_train)) (\<lambda>Xy.
        bindM (foldM (batch_step om (fst Xy) (snd Xy) X_val y_val batch_size loss_type log_every)
                 [0..<nat num_batches] (iteration, bound)) (\<lambda>st'.
        bindM (epoch_end callback (fst Xy) (snd Xy) X_val y_val loss_type (snd st') hist)
          (\<lambda>hist'.
        returnM (fst Xy, snd Xy, fst st', snd st', hist')))))"

text \<open>\<open>NeuralNetwork.train\<close> after its first statement: the batch count, the field
  widths, the history, the epochs.\<close>

definition train_loop ::
  "'o optimizer_module \<Rightarrow> (nat \<Rightarrow> nat list)
   \<Rightarrow> (real \<Rightarrow> real \<Rightarrow> real \<Rightarrow> real \<Rightarrow> error + unit) option
   \<Rightarrow> ndarray \<Rightarrow> labels \<Rightarrow> ndarray option \<Rightarrow> labels option \<Rightarrow> int \<Rightarrow> int \<Rightarrow> string \<Rightarrow> int
   \<Rightarrow> ('o, history) py_method" where
  "train_loop om perms callback X_train y_train X_val y_val batch_size num_epochs loss_type
     log_every =
     bindM (reading (\<lambda>self. num_batches_of (nrows X_train) batch_size)) (\<lambda>num_batches.
     bindM (reading (\<lambda>self. spacer num_epochs)) (\<lambda>_.
     bindM (reading (\<lambda>self. spacer num_batches)) (\<lambda>_.
     bindM (foldM (epoch_step om perms callback X_val y_val (nat batch_size) num_batches
                     loss_type log_every)
              [0..<nat num_epochs]
              (X_train, y_train, 0, None,
               \<lparr>train_loss = [], train_acc = [],
                val_loss = (if X_val \<noteq> None then Some [] else None),
                val_acc = (if X_val \<noteq> None then Some [] else None)\<rparr>)) (\<lambda>st.
     returnM (snd (snd (snd (snd st))))))))"

text \<open>\<open>NeuralNetwork.train\<close>: the optimizer check comes first.\<close>

definition train ::
  "'o optimizer_module \<Rightarrow> (nat \<Rightarrow> nat list)
   \<Rightarrow> (real \<Rightarrow> real \<Rightarrow> real \<Rightarrow> real \<Rightarrow> error + unit) option
   \<Rightarrow> ndarray \<Rightarrow> labels \<Rightarrow> ndarray option \<Rightarrow> labels option \<Rightarrow> int \<Rightarrow> int \<Rightarrow> string \<Rightarrow> int
   \<Rightarrow> ('o, history) py_method" where
  "train om perms callback X_train y_train X_val y_val batch_size num_epochs loss_type log_every =
     bindM (ensure_optimizer om) (\<lambda>_.
     train_loop om perms callback X_train y_train X_val y_val batch_size num_epochs loss_type
       log_every)"

subsection \<open>The gradients layer by layer, as the specification writes them\<close>

text \<open>
  Following the specification's words: the error of layer \<open>k\<close> is
  \<open>dA_k = (dA_{k+1} \<cdot> W[k+1])\<close> multiplied elementwise by the activation derivative at
  \<open>(A[k], H[k+1])\<close> for the kind of layer \<open>k\<close>, for \<open>k\<close> from \<open>L-2\<close> down to \<open>0\<close>; the
  error of the last layer, index \<open>L-1\<close>, is the output-layer error, which the
  specification calls \<open>dA_L\<close>. Then \<open>dW[k] = dA_k\<^sup>T \<cdot> H[k] / N\<close> and \<open>dB[k]\<close> is the
  columnwise sum of \<open>dA_k\<close> over \<open>N\<close>.
\<close>

function spec_dA ::
  "'o network \<Rightarrow> ndarray list \<Rightarrow> ndarray list \<Rightarrow> ndarray \<Rightarrow> nat \<Rightarrow> error + ndarray" where
  "spec_dA self H A dA_L k =
     (if L self \<le> Suc k then Inr dA_L
      else bindE (spec_dA self H A dA_L (Suc k)) (\<lambda>dA_next.
           bindE (dot dA_next (W self ! Suc k)) (\<lambda>d.
           bindE (activate_derivative (A ! k) (H ! Suc k) (activation_functions self ! k))
             (\<lambda>der. multiply d der))))"
  by pat_completeness auto
termination
  by (relation "measure (\<lambda>(self, H, A, dA_L, k). L self - k)") auto

definition spec_dW ::
  "'o network \<Rightarrow> nat \<Rightarrow> ndarray list \<Rightarrow> ndarray list \<Rightarrow> ndarray \<Rightarrow> nat \<Rightarrow> error + ndarray" where
  "spec_dW self N H A dA_L k =
     bindE (spec_dA self H A dA_L k) (\<lambda>dA_k. weight_gradient dA_k (H ! k) N)"

definition spec_dB ::
  "'o network \<Rightarrow> nat \<Rightarrow> ndarray list \<Rightarrow> ndarray list \<Rightarrow> ndarray \<Rightarrow> nat \<Rightarrow> error + ndarray" where
  "spec_dB self N H A dA_L k =
     bindE (spec_dA self H A dA_L k) (\<lambda>dA_k. bias_gradient dA_k N)"

text \<open>Following the specification's words: the cross-entropy gradient is
  \<open>-y_onehot / (y_pred + \<epsilon>)\<close>, entry by entry.\<close>

definition spec_cross_entropy_gradient :: "ndarray \<Rightarrow> ndarray \<Rightarrow> ndarray" where
  "spec_cross_entropy_gradient y_onehot y_pred =
     map2 (map2 (\<lambda>t p. - t / (p + epsilon))) y_onehot y_pred"

subsection \<open>Well-formed arrays\<close>

text \<open>A list of rows stands for a numpy array when all rows have the same length.\<close>

definition is_array :: "ndarray \<Rightarrow> bool" where
  "is_array a = (\<forall>r\<in>set a. length r = ncols a)"

subsection \<open>Frames and invariants of methods\<close>

definition read_only :: "('o, 'a) py_method \<Rightarrow> bool" where
  "read_only m = (\<forall>self. snd (m self) = self)"

definition preserves :: "('o network \<Rightarrow> bool) \<Rightarrow> ('o, 'a) py_method \<Rightarrow> bool" where
  "preserves I m = (\<forall>self. I self \<longrightarrow> I (snd (m self)))"

subsection \<open>A plain gradient-descent optimizer\<close>

text \<open>
  Modelled from the spec: \<open>utils/optimizer.py\<close> is not among the sources. The
  specification gives SGD as \<open>W -= lr * dW\<close>, and \<open>B\<close> likewise, with a required
  learning rate and no auxiliary state. The optimizer object is its learning rate. It
  serves as the instance on which the theorems about \<open>train\<close> are exercised.
\<close>

definition sgd_new :: "optimizer_class \<Rightarrow> ndarray list \<Rightarrow> ndarray list \<Rightarrow> pydict \<Rightarrow> error + real" where
  "sgd_new cls W0 B0 kwargs =
     (case kwargs ''learning_rate'' of Some (Num lr) \<Rightarrow> Inr lr | _ \<Rightarrow> Inl TypeError)"

definition sgd_update ::
  "real \<Rightarrow> ndarray list \<Rightarrow> ndarray list \<Rightarrow> ndarray list \<Rightarrow> ndarray list \<Rightarrow> nat
   \<Rightarrow> error + real \<times> ndarray list \<times> ndarray list" where
  "sgd_update lr W0 B0 dW dB step =
     bindE (mapE (\<lambda>p. broadcast (-) (fst p) (map_arr (\<lambda>x. lr * x) (snd p))) (zip W0 dW)) (\<lambda>W'.
     bindE (mapE (\<lambda>p. broadcast (-) (fst p) (map_arr (\<lambda>x. lr * x) (snd p))) (zip B0 dB)) (\<lambda>B'.
     Inr (lr, W', B')))"

definition sgd_module :: "real optimizer_module" where
  "sgd_module = \<lparr>opt_new = sgd_new, opt_update = sgd_update\<rparr>"

subsection \<open>A small network and a batch\<close>

text \<open>Two layers of width two on two inputs, ReLU then identity; two samples.\<close>

definition example_network :: "real network" where
  "example_network =
     \<lparr>layer_sizes = [2, 2, 2], L = 2, activation_functions = [''ReLU'', ''identity''],
      LOG_EACH = False, W = [[[1, 0], [0, 1]], [[1, 2], [3, 4]]], B = [[[0, 0]], [[1, 1]]],
      weight_decay = 0, optimizer = None\<rparr>"

definition example_X :: ndarray where
  "example_X = [[1, 2], [3, - 4]]"

definition example_y :: labels where
  "example_y = [1, 0]"

definition example_H :: "ndarray list" where
  "example_H = [[[1, 2], [3, - 4]], [[1, 2], [3, 0]], [[6, 12], [4, 10]]]"

definition example_A :: "ndarray list" where
  "example_A = [[[1, 2], [3, - 4]], [[6, 12], [4, 10]]]"

text \<open>One sigmoid layer of width two with zero weights: every output is one half.\<close>

definition sigmoid_network :: "real network" where
  "sigmoid_network =
     \<lparr>layer_sizes = [2, 2], L = 1, activation_functions = [''sigmoid''], LOG_EACH = False,
      W = [[[0, 0], [0, 0]]], B = [[[0, 0]]], weight_decay = 0, optimizer = None\<rparr>"

section \<open>Properties\<close>

subsection \<open>Evaluation and indexing\<close>

lemmas array_defs =
  nrows_def ncols_def shape_def zeros_def map_arr_def bc_dim_def bc_elem_def broadcast_def
  transpose_arr_def dot_def sum_axis0_def sum_all_def div_count_def div_scalar_def
  as_row_def py_index_def py_setitem_def lower_def lower_char_def

lemmas example_defs =
  example_network_def example_X_def example_y_def example_H_def example_A_def

declare spec_dA.simps [simp del]

lemma py_index_nat: "i < length xs \<Longrightarrow> py_index xs (int i) = Inr (xs ! i)"
  by (simp add: py_index_def)

lemma py_index_Suc: "Suc i < length xs \<Longrightarrow> py_index xs (int i + 1) = Inr (xs ! Suc i)"
  using py_index_nat[of "Suc i" xs] by (simp add: add.commute)

lemma py_setitem_nat: "i < length xs \<Longrightarrow> py_setitem xs (int i) v = Inr (xs[i := v])"
  by (simp add: py_setitem_def)

lemma py_setitem_last: "xs \<noteq> [] \<Longrightarrow> py_setitem xs (- 1) v = Inr (xs[length xs - 1 := v])"
  by (cases xs) (auto simp: py_setitem_def Let_def nat_diff_distrib')

lemma py_index_penultimate:
  "2 \<le> length xs \<Longrightarrow> py_index xs (- 2) = Inr (xs ! (length xs - 2))"
  by (auto simp: py_index_def Let_def nat_diff_distrib' intro!: arg_cong[where f = "nth xs"])

lemma bindE_Inr [simp]: "bindE (Inr x) f = f x"
  by (simp add: bindE_def)

lemma bindE_Inl [simp]: "bindE (Inl e) f = Inl e"
  by (simp add: bindE_def)

lemma bindE_eq_Inr: "bindE m f = Inr y \<longleftrightarrow> (\<exists>x. m = Inr x \<and> f x = Inr y)"
  by (cases m) auto

lemma spec_dA_top: "L self \<le> Suc k \<Longrightarrow> spec_dA self H A dA_L k = Inr dA_L"
  by (simp add: spec_dA.simps)

lemma spec_dA_step:
  "Suc k < L self \<Longrightarrow> spec_dA self H A dA_L (Suc k) = Inr dA_next \<Longrightarrow>
   spec_dA self H A dA_L k =
     bindE (dot dA_next (W self ! Suc k)) (\<lambda>d.
     bindE (activate_derivative (A ! k) (H ! Suc k) (activation_functions self ! k))
       (\<lambda>der. multiply d der))"
  by (subst spec_dA.simps) simp

lemma bp_step_spec:
  assumes "length H = L self + 1" "length A = L self" "length (W self) = L self"
    "length (activation_functions self) = L self"
    and "Suc k < L self" "spec_dA self H A dA_L (Suc k) = Inr dA"
    and "length dW = L self" "length dB = L self"
  shows "bp_step self H A N k (dA, dW, dB) =
     bindE (spec_dA self H A dA_L k) (\<lambda>dA'.
     bindE (weight_gradient dA' (H ! k) N) (\<lambda>g.
     bindE (bias_gradient dA' N) (\<lambda>b.
     Inr (dA', dW[k := Some g], dB[k := Some b]))))"
proof -
  have idx: "py_index (W self) (int k + 1) = Inr (W self ! Suc k)"
    "py_index A (int k) = Inr (A ! k)" "py_index H (int k + 1) = Inr (H ! Suc k)"
    "py_index (activation_functions self) (int k) = Inr (activation_functions self ! k)"
    "py_index H (int k) = Inr (H ! k)"
    "\<And>v. py_setitem dW (int k) v = Inr (dW[k := v])"
    "\<And>v. py_setitem dB (int k) v = Inr (dB[k := v])"
    using assms by (simp_all add: py_index_nat py_index_Suc py_setitem_nat)
  show ?thesis
    unfolding bp_step_def spec_dA_step[OF assms(5,6)]
    by (simp add: idx bindE_def split: sum.splits)
qed

lemma bp_loop_sound:
  assumes "length H = L self + 1" "length A = L self" "length (W self) = L self"
    "length (activation_functions self) = L self"
  shows "n < L self \<Longrightarrow> spec_dA self H A dA_L n = Inr dA \<Longrightarrow>
     length dW = L self \<Longrightarrow> length dB = L self \<Longrightarrow>
     foldE (bp_step self H A N) (rev [0..<n]) (dA, dW, dB) = Inr (dA', dW', dB') \<Longrightarrow>
     length dW' = L self \<and> length dB' = L self \<and>
     (\<forall>k<L self.
        (k < n \<longrightarrow> (\<exists>g b. spec_dW self N H A dA_L k = Inr g \<and> spec_dB self N H A dA_L k = Inr b
                        \<and> dW' ! k = Some g \<and> dB' ! k = Some b))
        \<and> (n \<le> k \<longrightarrow> dW' ! k = dW ! k \<and> dB' ! k = dB ! k))"
proof (induction n arbitrary: dA dW dB)
  case 0
  then show ?case by simp
next
  case (Suc n)
  from Suc.prems(1) have n: "n < L self" by simp
  from Suc.prems(5) obtain st where
    st: "bp_step self H A N n (dA, dW, dB) = Inr st"
    and rest: "foldE (bp_step self H A N) (rev [0..<n]) st = Inr (dA', dW', dB')"
    by (auto simp: bindE_eq_Inr)
  from st obtain dA1 g b where
    dA1: "spec_dA self H A dA_L n = Inr dA1"
    and g: "weight_gradient dA1 (H ! n) N = Inr g"
    and b: "bias_gradient dA1 N = Inr b"
    and st_eq: "st = (dA1, dW[n := Some g], dB[n := Some b])"
    unfolding bp_step_spec[OF assms Suc.prems(1,2,3,4)]
    by (auto simp: bindE_eq_Inr)
  have IH: "length dW' = L self \<and> length dB' = L self \<and>
     (\<forall>k<L self.
        (k < n \<longrightarrow> (\<exists>g b. spec_dW self N H A dA_L k = Inr g \<and> spec_dB self N H A dA_L k = Inr b
                        \<and> dW' ! k = Some g \<and> dB' ! k = Some b))
        \<and> (n \<le> k \<longrightarrow> dW' ! k = (dW[n := Some g]) ! k \<and> dB' ! k = (dB[n := Some b]) ! k))"
    using Suc.IH[OF n dA1, of "dW[n := Some g]" "dB[n := Some b]"] rest Suc.prems(3,4)
    by (simp add: st_eq)
  have specs: "spec_dW self N H A dA_L n = Inr g" "spec_dB self N H A dA_L n = Inr b"
    using dA1 g b by (simp_all add: spec_dW_def spec_dB_def)
  show ?case
  proof (intro conjI allI impI)
    show "length dW' = L self" "length dB' = L self" using IH by simp_all
  next
    fix k assume k: "k < L self" "k < Suc n"
    show "\<exists>g b. spec_dW self N H A dA_L k = Inr g \<and> spec_dB self N H A dA_L k = Inr b
            \<and> dW' ! k = Some g \<and> dB' ! k = Some b"
    proof (cases "k < n")
      case True
      with IH k show ?thesis by blast
    next
      case False
      with k have "k = n" by simp
      with IH k specs Suc.prems(3,4) show ?thesis by simp
    qed
  next
    fix k assume k: "k < L self" "Suc n \<le> k"
    with IH Suc.prems(3,4) show "dW' ! k = dW ! k" "dB' ! k = dB ! k" by simp_all
  qed
qed


lemma bp_loop_complete:
  assumes "length H = L self + 1" "length A = L self" "length (W self) = L self"
    "length (activation_functions self) = L self"
  shows "n < L self \<Longrightarrow> spec_dA self H A dA_L n = Inr dA \<Longrightarrow>
     length dW = L self \<Longrightarrow> length dB = L self \<Longrightarrow>
     (\<forall>k<n. \<exists>g b. spec_dW self N H A dA_L k = Inr g \<and> spec_dB self N H A dA_L k = Inr b) \<Longrightarrow>
     \<exists>st. foldE (bp_step self H A N) (rev [0..<n]) (dA, dW, dB) = Inr st"
proof (induction n arbitrary: dA dW dB)
  case 0
  then show ?case by simp
next
  case (Suc n)
  from Suc.prems(1) have n: "n < L self" by simp
  from Suc.prems(5) obtain g b where
    gb: "spec_dW self N H A dA_L n = Inr g" "spec_dB self N H A dA_L n = Inr b"
    by blast
  then obtain dA1 where dA1: "spec_dA self H A dA_L n = Inr dA1"
    and g: "weight_gradient dA1 (H ! n) N = Inr g"
    by (auto simp: spec_dW_def bindE_eq_Inr)
  with gb(2) have b: "bias_gradient dA1 N = Inr b"
    by (simp add: spec_dB_def)
  have step: "bp_step self H A N n (dA, dW, dB) = Inr (dA1, dW[n := Some g], dB[n := Some b])"
    unfolding bp_step_spec[OF assms Suc.prems(1,2,3,4)] by (simp add: dA1 g b)
  have "\<exists>st. foldE (bp_step self H A N) (rev [0..<n]) (dA1, dW[n := Some g], dB[n := Some b])
          = Inr st"
    using Suc.IH[OF n dA1, of "dW[n := Some g]" "dB[n := Some b]"] Suc.prems(3,4,5) by simp
  then show ?case by (simp add: step)
qed

lemma py_index_last: "xs \<noteq> [] \<Longrightarrow> py_index xs (- 1) = Inr (last xs)"
  by (cases xs rule: rev_cases) (auto simp: py_index_def Let_def nth_append)

lemma argmax_from_zeros: "0 \<le> bv \<Longrightarrow> argmax_from best bv i (replicate n 0) = best"
  by (induction n arbitrary: i) auto

lemma argmax_from_skip:
  "argmax_from best 0 i (replicate n 0 @ 1 # replicate m 0) = i + n"
  by (induction n arbitrary: i) (auto simp: argmax_from_zeros)

lemma one_hot_row_split:
  "k < C \<Longrightarrow> (replicate C (0::real))[k := 1] = replicate k 0 @ 1 # replicate (C - Suc k) 0"
  by (rule nth_equalityI) (auto simp: nth_append nth_Cons')

lemma argmax_one_hot_row:
  assumes "0 \<le> v" and "v < int C"
  shows "argmax_row (one_hot_row C v) = Inr (nat v)"
proof -
  from assms have k: "nat v < C" by linarith
  have row: "one_hot_row C v = replicate (nat v) 0 @ 1 # replicate (C - Suc (nat v)) 0"
    using assms k by (simp add: one_hot_row_def one_hot_row_split)
  show ?thesis
  proof (cases "nat v")
    case 0
    with row show ?thesis by (simp add: argmax_row_def argmax_from_zeros)
  next
    case (Suc k')
    with row show ?thesis by (simp add: argmax_row_def argmax_from_skip)
  qed
qed

lemma mapE_map_ok:
  "(\<And>x. x \<in> set xs \<Longrightarrow> f (h x) = Inr (g x)) \<Longrightarrow> mapE f (map h xs) = Inr (map g xs)"
  by (induction xs) (auto simp: bindE_def)

lemma one_hot_row_nth:
  "0 \<le> v \<Longrightarrow> v < int C \<Longrightarrow> j < C \<Longrightarrow> one_hot_row C v ! j = (if int j = v then 1 else 0)"
  by (auto simp: one_hot_row_def nth_list_update)

lemma zip_as_map: "zip xs ys = map (\<lambda>i. (xs ! i, ys ! i)) [0..<min (length xs) (length ys)]"
  by (rule nth_equalityI) auto

subsection \<open>Methods that only read\<close>

lemma read_only_reading: "read_only (reading f)"
  by (simp add: read_only_def reading_def)

lemma read_only_raise: "read_only (raise e)"
  by (simp add: read_only_def raise_def)

lemma read_only_returnM: "read_only (returnM x)"
  by (simp add: read_only_def returnM_def)

lemma read_only_bindM:
  assumes "read_only m" and "\<And>x. read_only (f x)"
  shows "read_only (bindM m f)"
proof -
  have "snd (bindM m f self) = self" for self
  proof (cases "m self")
    case (Pair r s')
    with assms(1) have s: "s' = self" by (auto simp: read_only_def dest: spec[of _ self])
    show ?thesis
    proof (cases r)
      case (Inl e)
      with Pair s show ?thesis by (simp add: bindM_def)
    next
      case (Inr x)
      with Pair s assms(2)[of x] show ?thesis by (simp add: bindM_def read_only_def)
    qed
  qed
  then show ?thesis by (simp add: read_only_def)
qed

lemma read_only_one_hot: "read_only (one_hot y)"
  by (simp add: one_hot_def read_only_reading)

lemma read_only_forward_propagation: "read_only (forward_propagation X)"
  by (simp add: forward_propagation_def read_only_reading)

lemma read_only_predict: "read_only (predict X)"
  unfolding predict_def by (intro read_only_bindM read_only_forward_propagation read_only_reading)

lemma read_only_compute_loss: "read_only (compute_loss H_final y loss_type)"
  unfolding compute_loss_def by (intro read_only_bindM read_only_one_hot read_only_reading)

lemma read_only_compute_accuracy: "read_only (compute_accuracy X y)"
  unfolding compute_accuracy_def by (intro read_only_bindM read_only_predict read_only_reading)

lemma read_onlyD: "read_only m \<Longrightarrow> snd (m self) = self"
  by (simp add: read_only_def)

subsection \<open>Calls of read-only methods\<close>

lemmas method_defs =
  bindM_def reading_def raise_def returnM_def bindE_def

lemma bindM_reading:
  "bindM (reading g) f self = (case g self of Inl e \<Rightarrow> (Inl e, self) | Inr x \<Rightarrow> f x self)"
  by (simp add: bindM_def reading_def)

lemma fst_reading [simp]: "fst (reading g self) = g self"
  by (simp add: reading_def)

lemma fst_raise [simp]: "fst (raise e self) = Inl e"
  by (simp add: raise_def)

lemma bindM_read_only:
  assumes "read_only m"
  shows "bindM m f self = (case fst (m self) of Inl e \<Rightarrow> (Inl e, self) | Inr x \<Rightarrow> f x self)"
proof -
  obtain r s' where ms: "m self = (r, s')" by (cases "m self")
  with assms have "s' = self" by (metis read_onlyD snd_conv)
  with ms show ?thesis by (simp add: bindM_def)
qed

lemma fst_bindM_read_only:
  "read_only m \<Longrightarrow> fst (bindM m f self) = bindE (fst (m self)) (\<lambda>x. fst (f x self))"
  by (simp add: bindM_read_only bindE_def split: sum.splits)

lemma read_only_loss_derivative: "read_only (loss_derivative y_pred y loss_type)"
  unfolding loss_derivative_def
  by (auto intro!: read_only_bindM read_only_one_hot read_only_reading read_only_raise)

subsection \<open>Backpropagation: lengths, weight decay\<close>

lemma foldE_append: "foldE f (xs @ ys) s = bindE (foldE f xs s) (foldE f ys)"
  by (induction xs arbitrary: s) (auto simp: bindE_def split: sum.splits)

lemma those_map_Some [simp]: "those (map Some ys) = Some ys"
  by (induction ys) auto

lemma those_eq_Some: "those xs = Some ys \<Longrightarrow> xs = map Some ys"
  by (induction xs arbitrary: ys) (auto split: option.splits)

lemma assigned_eq_Inr: "assigned xs = Inr ys \<longleftrightarrow> xs = map Some ys"
  by (auto simp: assigned_def dest: those_eq_Some split: option.splits)

lemma bp_step_lengths:
  "bp_step self H A N k (dA, dW, dB) = Inr (dA', dW', dB') \<Longrightarrow>
   length dW' = length dW \<and> length dB' = length dB"
  by (auto simp: bp_step_def bindE_eq_Inr py_setitem_def split: if_splits)

lemma bp_loop_lengths:
  "foldE (bp_step self H A N) ks (dA, dW, dB) = Inr (dA', dW', dB') \<Longrightarrow>
   length dW' = length dW \<and> length dB' = length dB"
proof (induction ks arbitrary: dA dW dB)
  case Nil
  then show ?case by simp
next
  case (Cons k ks)
  then obtain st where st: "bp_step self H A N k (dA, dW, dB) = Inr st"
    and rest: "foldE (bp_step self H A N) ks st = Inr (dA', dW', dB')"
    by (auto simp: bindE_eq_Inr)
  obtain a w b where "st = (a, w, b)" by (cases st) auto
  with st rest Cons.IH[of a w b] bp_step_lengths[of self H A N k dA dW dB a w b]
  show ?case by simp
qed

lemma layer_gradients_lengths:
  assumes "layer_gradients self N H A dA = Inr (gW, gB)"
  shows "length gW = L self \<and> length gB = L self"
proof -
  from assms obtain v1 v2 w1 w2 st where
    w1: "py_setitem (replicate (L self) None) (- 1) v1 = Inr w1"
    and w2: "py_setitem (replicate (L self) None) (- 1) v2 = Inr w2"
    and loop: "foldE (bp_step self H A N) (rev [0..<L self - 1]) (dA, w1, w2) = Inr st"
    and res: "snd st = (gW, gB)"
    unfolding layer_gradients_def bindE_eq_Inr by blast
  have "length w1 = L self" "length w2 = L self"
    using w1 w2 by (auto simp: py_setitem_def split: if_splits)
  moreover obtain a where "st = (a, gW, gB)" using res by (cases st) auto
  ultimately show ?thesis using bp_loop_lengths[of self H A N _ dA w1 w2 a gW gB] loop by simp
qed

lemma fst_output_error_weight_decay:
  "fst (output_error y H A loss_type (self\<lparr>weight_decay := w\<rparr>))
     = fst (output_error y H A loss_type self)"
  by (simp add: output_error_def bindM_def reading_def one_hot_def loss_derivative_def raise_def
      split: sum.splits prod.splits)

lemma bp_step_weight_decay:
  "bp_step (self\<lparr>weight_decay := w\<rparr>) H A N = bp_step self H A N"
  by (intro ext) (simp add: bp_step_def)

lemma layer_gradients_weight_decay:
  "layer_gradients (self\<lparr>weight_decay := w\<rparr>) N H A dA = layer_gradients self N H A dA"
  by (simp add: layer_gradients_def bp_step_weight_decay)

lemma read_only_output_error: "read_only (output_error y H A loss_type)"
  unfolding output_error_def
  by (auto intro!: read_only_bindM read_only_one_hot read_only_reading read_only_loss_derivative)

lemma fst_back_propagation:
  "fst (back_propagation X y H A loss_type self) =
     (if length H = L self + 1 \<and> length A = L self \<and> nrows X = length y
      then bindE (fst (output_error y H A loss_type self)) (\<lambda>dA.
           bindE (layer_gradients self (nrows X) H A dA) (\<lambda>g.
           bindE (apply_weight_decay self (fst g)) (\<lambda>dW.
           bindE (assigned dW) (\<lambda>dW'.
           bindE (assigned (snd g)) (\<lambda>dB'.
           Inr (dW', dB'))))))
      else Inl AssertionError)"
  unfolding back_propagation_def
  by (auto simp: bindM_reading fst_bindM_read_only read_only_output_error bindE_def
      split: sum.splits)

lemma shape_map_arr [simp]: "shape (map_arr f a) = shape a"
  by (cases a) (simp_all add: shape_def nrows_def ncols_def map_arr_def)

lemma broadcast_same_shape:
  assumes "shape a = shape b"
  shows "broadcast f a b
           = Inr (map (\<lambda>i. map (\<lambda>j. f (a ! i ! j) (b ! i ! j)) [0..<ncols a]) [0..<nrows a])"
proof -
  from assms have eq: "nrows b = nrows a" "ncols b = ncols a" by (simp_all add: shape_def)
  have "bc_elem a i j = a ! i ! j" "bc_elem b i j = b ! i ! j"
    if "i < nrows a" "j < ncols a" for i j
    using that eq by (auto simp: bc_elem_def)
  then have "map (\<lambda>i. map (\<lambda>j. f (bc_elem a i j) (bc_elem b i j)) [0..<ncols a]) [0..<nrows a]
      = map (\<lambda>i. map (\<lambda>j. f (a ! i ! j) (b ! i ! j)) [0..<ncols a]) [0..<nrows a]"
    by (intro map_cong refl) simp_all
  then show ?thesis by (simp add: broadcast_def eq bc_dim_def)
qed

lemma shape_tabulate:
  "shape (map (\<lambda>i. map (\<lambda>j. g i j) [0..<ncols a]) [0..<nrows a]) = shape a"
  by (cases a) (simp_all add: shape_def nrows_def ncols_def upt_conv_Cons del: upt_Suc)

lemma iadd_same_shape:
  assumes "shape a = shape b"
  shows "iadd a b = Inr (map (\<lambda>i. map (\<lambda>j. a ! i ! j + b ! i ! j) [0..<ncols a]) [0..<nrows a])"
  using assms by (simp add: iadd_def broadcast_same_shape shape_tabulate)

lemma decay_loop:
  fixes self :: "'o network" and ds :: "ndarray list"
  defines "dec \<equiv> \<lambda>i. map (\<lambda>r. map (\<lambda>c. ds ! i ! r ! c
                        + map_arr (\<lambda>w. weight_decay self * w) (W self ! i) ! r ! c)
                      [0..<ncols (ds ! i)]) [0..<nrows (ds ! i)]"
  shows "n \<le> length ds \<Longrightarrow> n \<le> length (W self) \<Longrightarrow>
    (\<forall>i<n. shape (W self ! i) = shape (ds ! i)) \<Longrightarrow>
    foldE (decay_step self) [0..<n] (map Some ds)
      = Inr (map (\<lambda>i. Some (if i < n then dec i else ds ! i)) [0..<length ds])"
proof (induction n)
  case 0
  have "map Some ds = map (\<lambda>i. Some (ds ! i)) [0..<length ds]"
    by (rule nth_equalityI) auto
  then show ?case by simp
next
  case (Suc n)
  let ?xs = "map (\<lambda>i. Some (if i < n then dec i else ds ! i)) [0..<length ds]"
  have IH: "foldE (decay_step self) [0..<n] (map Some ds) = Inr ?xs"
    using Suc by simp
  have n: "n < length ds" "n < length (W self)" using Suc.prems by simp_all
  have sh: "shape (ds ! n) = shape (map_arr (\<lambda>w. weight_decay self * w) (W self ! n))"
    using Suc.prems(3) by simp
  have "?xs[n := Some (dec n)]
          = map (\<lambda>i. Some (if i < Suc n then dec i else ds ! i)) [0..<length ds]"
    by (rule nth_equalityI) (auto simp: nth_list_update less_Suc_eq)
  then have step: "decay_step self n ?xs
          = Inr (map (\<lambda>i. Some (if i < Suc n then dec i else ds ! i)) [0..<length ds])"
    using n by (simp add: decay_step_def py_index_nat py_setitem_nat iadd_same_shape[OF sh] dec_def)
  show ?case
    by (simp add: foldE_append IH step del: upt_Suc add: upt_Suc_append)
qed

lemma map_arr_nth:
  "is_array a \<Longrightarrow> r < nrows a \<Longrightarrow> c < ncols a \<Longrightarrow> map_arr f a ! r ! c = f (a ! r ! c)"
  by (simp add: is_array_def map_arr_def nrows_def)

lemma assigned_map_Some [simp]: "assigned (map Some ys) = Inr ys"
  by (simp add: assigned_eq_Inr)

lemma assigned_map_Some_comp [simp]: "assigned (map (Some \<circ> f) xs) = Inr (map f xs)"
  by (simp add: assigned_eq_Inr)

lemma example_back_propagation:
  "fst (back_propagation example_X example_y example_H example_A ''mse''
          (example_network\<lparr>weight_decay := w\<rparr>))
     = (if w > 0
        then Inr ([[[69 / 2 + w, - (27 / 2)], [14, 28 + w]],
                   [[15 / 4 + w, 3 + w * 2], [41 / 4 + w * 3, 11 / 2 + w * 4]]],
                  [[[18, 14]], [[9 / 4, 21 / 4]]])
        else Inr ([[[69 / 2, - (27 / 2)], [14, 28]], [[15 / 4, 3], [41 / 4, 11 / 2]]],
                  [[[18, 14]], [[9 / 4, 21 / 4]]]))"
  by (simp add: back_propagation_def output_error_def loss_derivative_def one_hot_def
      one_hot_row_def layer_gradients_def weight_gradient_def bias_gradient_def bp_step_def
      activate_derivative_def multiply_def apply_weight_decay_def decay_step_def iadd_def
      assigned_def example_defs method_defs array_defs numeral_2_eq_2 upt_rec)

text \<open>Every entry of the gradient lists is assigned before they are returned.\<close>

lemma bp_step_assigns:
  assumes "bp_step self H A N k (dA, dW, dB) = Inr (dA', dW', dB')"
  shows "k < length dW \<and> k < length dB \<and> (\<exists>g b. dW' = dW[k := Some g] \<and> dB' = dB[k := Some b])"
  using assms
  by (auto simp: bp_step_def bindE_eq_Inr py_setitem_def split: if_splits)

lemma bp_loop_assigns:
  "foldE (bp_step self H A N) (rev [0..<n]) (dA, dW, dB) = Inr (dA', dW', dB') \<Longrightarrow>
   length dW' = length dW \<and> length dB' = length dB \<and>
   (\<forall>k. (k < n \<longrightarrow> dW' ! k \<noteq> None \<and> dB' ! k \<noteq> None)
      \<and> (n \<le> k \<longrightarrow> dW' ! k = dW ! k \<and> dB' ! k = dB ! k))"
proof (induction n arbitrary: dA dW dB)
  case 0
  then show ?case by simp
next
  case (Suc n)
  from Suc.prems obtain st where
    st: "bp_step self H A N n (dA, dW, dB) = Inr st"
    and rest: "foldE (bp_step self H A N) (rev [0..<n]) st = Inr (dA', dW', dB')"
    by (auto simp: bindE_eq_Inr)
  obtain dA1 dW1 dB1 where st_eq: "st = (dA1, dW1, dB1)" by (cases st) auto
  from bp_step_assigns[OF st[unfolded st_eq]] obtain g b where
    n: "n < length dW" "n < length dB" and upd: "dW1 = dW[n := Some g]" "dB1 = dB[n := Some b]"
    by blast
  note IH = Suc.IH[OF rest[unfolded st_eq]]
  show ?case
  proof (intro conjI allI impI)
    show "length dW' = length dW" "length dB' = length dB" using IH upd by simp_all
  next
    fix k assume "k < Suc n"
    then consider "k < n" | "k = n" by linarith
    then show "dW' ! k \<noteq> None"
    proof cases
      case 1
      with IH show ?thesis by blast
    next
      case 2
      from IH have "dW' ! n = dW1 ! n" by blast
      with 2 upd n show ?thesis by simp
    qed
  next
    fix k assume "k < Suc n"
    then consider "k < n" | "k = n" by linarith
    then show "dB' ! k \<noteq> None"
    proof cases
      case 1
      with IH show ?thesis by blast
    next
      case 2
      from IH have "dB' ! n = dB1 ! n" by blast
      with 2 upd n show ?thesis by simp
    qed
  next
    fix k assume "Suc n \<le> k"
    then show "dW' ! k = dW ! k" "dB' ! k = dB ! k" using IH upd by simp_all
  qed
qed

lemma all_assigned:
  assumes "\<forall>k<length xs. xs ! k \<noteq> None"
  shows "xs = map Some (map the xs)"
  by (rule nth_equalityI) (use assms in auto)

lemma layer_gradients_assigned:
  assumes "layer_gradients self N H A dA = Inr (gW, gB)"
  shows "\<exists>dW dB. assigned gW = Inr dW \<and> assigned gB = Inr dB"
proof -
  from assms obtain v1 v2 w1 w2 st where
    w1: "py_setitem (replicate (L self) None) (- 1) (Some v1) = Inr w1"
    and w2: "py_setitem (replicate (L self) None) (- 1) (Some v2) = Inr w2"
    and loop: "foldE (bp_step self H A N) (rev [0..<L self - 1]) (dA, w1, w2) = Inr st"
    and res: "snd st = (gW, gB)"
    unfolding layer_gradients_def bindE_eq_Inr by blast
  obtain a where st: "st = (a, gW, gB)" using res by (cases st) auto
  from w1 have pos: "0 < L self" by (auto simp: py_setitem_def split: if_splits)
  then have ne: "replicate (L self) (None :: ndarray option) \<noteq> []" by simp
  from w1 w2 have w: "w1 = (replicate (L self) None)[L self - 1 := Some v1]"
    "w2 = (replicate (L self) None)[L self - 1 := Some v2]"
    by (simp_all add: py_setitem_last[OF ne])
  note inv = bp_loop_assigns[OF loop[unfolded st]]
  have "gW ! k \<noteq> None \<and> gB ! k \<noteq> None" if "k < L self" for k
  proof (cases "k < L self - 1")
    case True
    with inv show ?thesis by blast
  next
    case False
    with that have "k = L self - 1" by simp
    with inv w pos show ?thesis by simp
  qed
  moreover have "length gW = L self" "length gB = L self" using inv w by simp_all
  ultimately have "\<forall>k<length gW. gW ! k \<noteq> None" "\<forall>k<length gB. gB ! k \<noteq> None"
    by simp_all
  then have "gW = map Some (map the gW)" and "gB = map Some (map the gB)"
    by (auto intro: all_assigned simp del: map_map)
  then show ?thesis by (metis assigned_map_Some)
qed

lemma decay_step_assigned:
  "decay_step self i (map Some ds) = Inr xs \<Longrightarrow> \<exists>ds'. xs = map Some ds'"
  by (auto simp: decay_step_def bindE_eq_Inr py_setitem_def py_index_def map_update[symmetric]
      split: if_splits option.splits)

lemma weight_decay_assigned:
  "foldE (decay_step self) js (map Some ds) = Inr xs \<Longrightarrow> \<exists>ds'. xs = map Some ds'"
proof (induction js arbitrary: ds)
  case Nil
  then show ?case by auto
next
  case (Cons j js)
  then obtain ys where "decay_step self j (map Some ds) = Inr ys"
    and rest: "foldE (decay_step self) js ys = Inr xs"
    by (auto simp: bindE_eq_Inr)
  then obtain ds1 where "ys = map Some ds1" using decay_step_assigned by blast
  with rest Cons.IH[of ds1] show ?case by simp
qed

subsection \<open>Constructed networks\<close>

lemma constructed_network_lengths:
  assumes "NeuralNetwork_init draw layer_sizes' activation_functions' weight_decay' weight_init
             LOG_EACH' = Inr nn"
  shows "L nn = length activation_functions' \<and> length (W nn) = L nn \<and> length (B nn) = L nn
         \<and> length (activation_functions nn) = L nn \<and> length (layer_sizes nn) = L nn + 1
         \<and> optimizer nn = None"
proof -
  from assms have len: "length layer_sizes' = length activation_functions' + 1"
    by (auto simp: NeuralNetwork_init_def split: if_splits)
  from assms obtain Ws where "nn = new_network layer_sizes' activation_functions' weight_decay'
                                     LOG_EACH' Ws"
    and "length Ws = length layer_sizes' - 1"
    by (auto simp: NeuralNetwork_init_def simp del: upt_Suc split: if_splits)
  with len show ?thesis by (simp add: new_network_def del: upt_Suc)
qed

subsection \<open>The training loop: frames, the attached optimizer, failure\<close>

lemma read_only_case_option:
  "read_only a \<Longrightarrow> (\<And>v. read_only (b v)) \<Longrightarrow> read_only (case x of None \<Rightarrow> a | Some v \<Rightarrow> b v)"
  by (cases x) simp_all

lemma read_only_back_propagation: "read_only (back_propagation X y H A loss_type)"
  unfolding back_propagation_def
  by (intro read_only_bindM read_only_reading read_only_output_error)

lemma read_only_predict_val: "read_only (predict_val X_val)"
  unfolding predict_val_def by (intro read_only_case_option read_only_raise read_only_predict)

lemma read_only_compute_loss_val: "read_only (compute_loss_val X_val y_val loss_type)"
  unfolding compute_loss_val_def
  by (intro read_only_bindM read_only_predict_val read_only_case_option read_only_raise
      read_only_compute_loss)

lemma read_only_compute_accuracy_val: "read_only (compute_accuracy_val X_val y_val)"
  unfolding compute_accuracy_val_def
  by (intro read_only_bindM read_only_predict_val read_only_reading)

lemma read_only_log_step:
  "read_only (log_step X_val y_val loss_type log_every iteration H y_batch)"
  unfolding log_step_def
  by (auto intro!: read_only_bindM read_only_reading read_only_raise read_only_returnM
      read_only_compute_loss read_only_compute_loss_val)

lemma read_only_epoch_end:
  "read_only (epoch_end callback X_train y_train X_val y_val loss_type bound hist)"
  unfolding epoch_end_def
  by (auto intro!: read_only_bindM read_only_reading read_only_raise read_only_returnM
      read_only_compute_loss read_only_compute_loss_val read_only_compute_accuracy
      read_only_compute_accuracy_val
      simp: Let_def split: option.splits prod.splits)

lemma preserves_read_only: "read_only m \<Longrightarrow> preserves I m"
  by (simp add: preserves_def read_only_def)

lemma preserves_bindM:
  assumes "preserves I m" and "\<And>x. preserves I (f x)"
  shows "preserves I (bindM m f)"
proof -
  have "I (snd (bindM m f self))" if "I self" for self
  proof (cases "m self")
    case (Pair r s')
    with assms(1) that have s': "I s'" by (auto simp: preserves_def dest: spec[of _ self])
    show ?thesis
    proof (cases r)
      case (Inl e)
      with Pair s' show ?thesis by (simp add: bindM_def)
    next
      case (Inr x)
      with Pair s' assms(2)[of x] show ?thesis by (simp add: bindM_def preserves_def)
    qed
  qed
  then show ?thesis by (simp add: preserves_def)
qed

lemma preserves_foldM:
  "(\<And>i s. preserves I (f i s)) \<Longrightarrow> preserves I (foldM f js s)"
  by (induction js arbitrary: s)
    (auto intro: preserves_bindM preserves_read_only read_only_returnM)

lemma preserves_optimizer_step:
  assumes "\<And>o1 w b dw db i o2 w' b'.
             P o1 \<Longrightarrow> opt_update om o1 w b dw db i = Inr (o2, w', b') \<Longrightarrow> P o2"
  shows "preserves (\<lambda>self. \<exists>opt. optimizer self = Some opt \<and> P opt)
           (optimizer_step om dW dB iteration)"
  unfolding preserves_def optimizer_step_def
  by (auto split: sum.splits dest: assms)

lemma preserves_batch_step:
  assumes "\<And>o1 w b dw db i o2 w' b'.
             P o1 \<Longrightarrow> opt_update om o1 w b dw db i = Inr (o2, w', b') \<Longrightarrow> P o2"
  shows "preserves (\<lambda>self. \<exists>opt. optimizer self = Some opt \<and> P opt)
           (batch_step om X_train y_train X_val y_val batch_size loss_type log_every batch st)"
proof -
  note step = preserves_optimizer_step[of P om, OF assms]
  show ?thesis
    unfolding batch_step_def Let_def
    by (intro preserves_bindM step
        preserves_read_only[OF read_only_forward_propagation]
        preserves_read_only[OF read_only_back_propagation]
        preserves_read_only[OF read_only_log_step]
        preserves_read_only[OF read_only_returnM])
qed

lemma preserves_epoch_step:
  assumes "\<And>o1 w b dw db i o2 w' b'.
             P o1 \<Longrightarrow> opt_update om o1 w b dw db i = Inr (o2, w', b') \<Longrightarrow> P o2"
  shows "preserves (\<lambda>self. \<exists>opt. optimizer self = Some opt \<and> P opt)
           (epoch_step om perms callback X_val y_val batch_size num_batches loss_type log_every
              epoch st)"
proof -
  obtain X_train y_train iteration bound hist where
    st: "st = (X_train, y_train, iteration, bound, hist)" by (cases st) auto
  note batch = preserves_batch_step[of P om, OF assms]
  show ?thesis
    unfolding epoch_step_def st prod.case
    by (intro preserves_bindM preserves_foldM batch
        preserves_read_only[OF read_only_reading]
        preserves_read_only[OF read_only_epoch_end]
        preserves_read_only[OF read_only_returnM])
qed

lemma preserves_train_loop:
  assumes "\<And>o1 w b dw db i o2 w' b'.
             P o1 \<Longrightarrow> opt_update om o1 w b dw db i = Inr (o2, w', b') \<Longrightarrow> P o2"
  shows "preserves (\<lambda>self. \<exists>opt. optimizer self = Some opt \<and> P opt)
           (train_loop om perms callback X_train y_train X_val y_val batch_size num_epochs
              loss_type log_every)"
proof -
  note epoch = preserves_epoch_step[of P om, OF assms]
  show ?thesis
    unfolding train_loop_def
    by (intro preserves_bindM preserves_foldM epoch
        preserves_read_only[OF read_only_reading]
        preserves_read_only[OF read_only_returnM])
qed

lemma ensure_optimizer_attached:
  "optimizer self = Some opt \<Longrightarrow> ensure_optimizer om self = (Inr (), self)"
  by (simp add: ensure_optimizer_def)

lemma ensure_optimizer_default:
  "optimizer self = None \<Longrightarrow>
   ensure_optimizer om self =
     (case opt_new om SGDOptimizer (W self) (B self)
             [''name'' \<mapsto> Str ''sgd'', ''learning_rate'' \<mapsto> Num (1 / 100),
              ''LOG_EACH'' \<mapsto> Bool (LOG_EACH self)] of
        Inl e \<Rightarrow> (Inl e, self)
      | Inr opt \<Rightarrow> (Inr (), self\<lparr>optimizer := Some opt\<rparr>))"
  by (simp add: ensure_optimizer_def set_optimizer_def default_optimizer_dict_def
      optimizer_map_def lower_def lower_char_def)

lemma isl_bindM_left: "isl (fst (m self)) \<Longrightarrow> isl (fst (bindM m f self))"
  by (cases "m self") (auto simp: bindM_def isl_def)

lemma isl_bindM_right: "(\<And>x s. isl (fst (f x s))) \<Longrightarrow> isl (fst (bindM m f self))"
  by (cases "m self") (auto simp: bindM_def split: sum.splits)

lemma compute_loss_val_None: "isl (fst (compute_loss_val None y_val loss_type self))"
  by (simp add: compute_loss_val_def predict_val_def bindM_def raise_def)

lemma epoch_end_without_validation:
  "isl (fst (epoch_end callback X_train y_train None y_val loss_type bound hist self))"
proof (cases bound)
  case None
  then show ?thesis by (simp add: epoch_end_def raise_def)
next
  case (Some v)
  obtain H X_batch y_batch where v: "v = (H, X_batch, y_batch)" by (cases v) auto
  show ?thesis
    unfolding epoch_end_def Some v option.case prod.case
    by (rule isl_bindM_right, rule isl_bindM_right, rule isl_bindM_right,
        rule isl_bindM_left, rule compute_loss_val_None)
qed

lemma epoch_step_without_validation:
  "isl (fst (epoch_step om perms callback None y_val batch_size num_batches loss_type log_every
               epoch st self))"
proof -
  obtain X_train y_train iteration bound hist where
    st: "st = (X_train, y_train, iteration, bound, hist)" by (cases st) auto
  show ?thesis
    unfolding epoch_step_def st prod.case
    by (rule isl_bindM_right, rule isl_bindM_right, rule isl_bindM_left,
        rule epoch_end_without_validation)
qed

lemma foldM_first_fails:
  "js \<noteq> [] \<Longrightarrow> (\<And>i s self. isl (fst (f i s self))) \<Longrightarrow> isl (fst (foldM f js s self))"
  by (cases js) (auto intro: isl_bindM_left)

subsection \<open>Runs of the example\<close>

lemmas train_defs =
  train_def train_loop_def ensure_optimizer_def set_optimizer_def default_optimizer_dict_def
  optimizer_map_def num_batches_of_def spacer_def epoch_step_def shuffle_def take_indices_def
  batch_step_def slice_def optimizer_step_def log_step_def epoch_end_def predict_val_def
  compute_loss_val_def compute_accuracy_val_def sgd_module_def sgd_new_def sgd_update_def

lemmas network_defs =
  forward_propagation_def fp_step_def activate_def predict_def compute_loss_def
  compute_accuracy_def argmax_axis1_def argmax_row_def mean_equal_def
  back_propagation_def output_error_def loss_derivative_def one_hot_def
  one_hot_row_def layer_gradients_def weight_gradient_def bias_gradient_def bp_step_def
  activate_derivative_def multiply_def apply_weight_decay_def decay_step_def iadd_def
  assigned_def

lemma example_train_without_validation:
  "fst (train sgd_module (\<lambda>epoch. [1, 0]) None example_X example_y None None 2 1 ''mse'' 1
          example_network) = Inl TypeError"
  by (simp add: train_defs network_defs example_defs method_defs array_defs numeral_2_eq_2 upt_rec Let_def)

lemma example_train_run:
  "train sgd_module (\<lambda>epoch. [1, 0]) None example_X example_y (Some example_X) (Some example_y)
     2 1 ''mse'' 1 (example_network\<lparr>optimizer := Some (1 / 100)\<rparr>)
   = (Inr \<lparr>train_loss = [133 / 2], train_acc = [1 / 2],
            val_loss = Some [132194686709 / 6400000000], val_acc = Some [1 / 2]\<rparr>,
      example_network
        \<lparr>W := [[[131 / 200, 27 / 200], [- (7 / 50), 18 / 25]],
               [[77 / 80, 197 / 100], [1159 / 400, 789 / 200]]],
         B := [[[- (9 / 50), - (7 / 50)]], [[391 / 400, 379 / 400]]],
         optimizer := Some (1 / 100)\<rparr>)"
  by (simp add: train_defs network_defs example_defs method_defs array_defs numeral_2_eq_2
      upt_rec Let_def)

subsection \<open>The branches of the output-layer error\<close>

text \<open>Which formula \<open>back_propagation\<close> takes for the output-layer error, with the list
  indices resolved.\<close>

lemma output_error_branches:
  assumes "0 < L self" and "length H = L self + 1" and "length A = L self"
    and "length (activation_functions self) = L self"
  shows "fst (output_error y H A loss_type self) =
     (if lower loss_type = ''cross_entropy''
         \<and> lower (activation_functions self ! (L self - 1)) = ''softmax''
      then bindE (fst (one_hot y self)) (\<lambda>y1. broadcast (-) (H ! L self) y1)
      else bindE (fst (loss_derivative (H ! L self) y loss_type self)) (\<lambda>dH.
           bindE (activate_derivative (A ! (L self - 1)) (H ! L self)
                    (activation_functions self ! (L self - 1))) (\<lambda>d.
           multiply dH d)))"
proof -
  have H_last: "py_index H (- 1) = Inr (H ! L self)"
    using assms(2) py_index_last[of H] by (cases H rule: rev_cases) (auto simp: nth_append)
  have A_last: "py_index A (- 1) = Inr (A ! (L self - 1))"
    using assms(1,3) py_index_last[of A] by (cases A rule: rev_cases) (auto simp: nth_append)
  have act_last: "py_index (activation_functions self) (- 1)
                    = Inr (activation_functions self ! (L self - 1))"
    using assms(1,4) py_index_last[of "activation_functions self"]
    by (cases "activation_functions self" rule: rev_cases) (auto simp: nth_append)
  show ?thesis
    unfolding output_error_def
    by (simp add: bindM_reading H_last A_last act_last fst_bindM_read_only
        read_only_one_hot read_only_loss_derivative)
qed

section \<open>The claims\<close>

text \<open>
  C1. With the cross-entropy loss and a last activation other than softmax, the
  output-layer error of \<open>back_propagation\<close> is not the loss gradient
  \<open>-y_onehot / (H[L] + \<epsilon>)\<close> times the activation derivative: \<open>_loss_derivative\<close> is
  handed the label vector as it comes. After a forward pass of a sigmoid layer, two
  samples of two classes with labels \<open>[1, 0]\<close> give both rows of the error the entry for
  class 0, and three samples raise ValueError. In the other combinations the code takes
  \<open>H[L] - one_hot(y)\<close>, or the mean-squared-error gradient, which expands the labels,
  times the derivative (lemma \<open>output_error_branches\<close>).
\<close>

theorem output_error_cross_entropy_without_softmax:
  "fst (forward_propagation example_X sigmoid_network)
     = Inr ([example_X, [[1 / 2, 1 / 2], [1 / 2, 1 / 2]]], [[[0, 0], [0, 0]]])
   \<and> fst (output_error example_y [example_X, [[1 / 2, 1 / 2], [1 / 2, 1 / 2]]] [[[0, 0], [0, 0]]]
            ''cross_entropy'' sigmoid_network)
     = Inr [[- (250000000000000 / 500000000000001), 0],
            [- (250000000000000 / 500000000000001), 0]]
   \<and> fst (forward_propagation [[1, 2], [3, - 4], [0, 1]] sigmoid_network)
     = Inr ([[[1, 2], [3, - 4], [0, 1]], [[1 / 2, 1 / 2], [1 / 2, 1 / 2], [1 / 2, 1 / 2]]],
            [[[0, 0], [0, 0], [0, 0]]])
   \<and> fst (output_error [1, 0, 1]
            [[[1, 2], [3, - 4], [0, 1]], [[1 / 2, 1 / 2], [1 / 2, 1 / 2], [1 / 2, 1 / 2]]]
            [[[0, 0], [0, 0], [0, 0]]] ''cross_entropy'' sigmoid_network)
     = Inl (ValueError ''operands could not be broadcast together'')"
  by (simp add: forward_propagation_def fp_step_def activate_def output_error_def
      loss_derivative_def divide_arr_def epsilon_def activate_derivative_def multiply_def
      sigmoid_network_def example_defs method_defs array_defs numeral_2_eq_2 numeral_3_eq_3
      upt_rec)

text \<open>The loss gradient of the specification times the derivative is another array.\<close>

theorem output_error_cross_entropy_without_softmax_witness:
  "fst (one_hot example_y sigmoid_network) = Inr [[0, 1], [1, 0]]
   \<and> bindE (activate_derivative [[0, 0], [0, 0]] [[1 / 2, 1 / 2], [1 / 2, 1 / 2]] ''sigmoid'')
        (multiply (spec_cross_entropy_gradient [[0, 1], [1, 0]] [[1 / 2, 1 / 2], [1 / 2, 1 / 2]]))
     = Inr [[0, - (250000000000000 / 500000000000001)],
            [- (250000000000000 / 500000000000001), 0]]
   \<and> fst (output_error example_y [example_X, [[1 / 2, 1 / 2], [1 / 2, 1 / 2]]] [[[0, 0], [0, 0]]]
            ''cross_entropy'' sigmoid_network)
     \<noteq> Inr [[0, - (250000000000000 / 500000000000001)],
             [- (250000000000000 / 500000000000001), 0]]"
  using output_error_cross_entropy_without_softmax
  by (simp add: spec_cross_entropy_gradient_def epsilon_def one_hot_def one_hot_row_def
      activate_derivative_def multiply_def reading_def sigmoid_network_def example_defs
      array_defs numeral_2_eq_2 upt_rec)

text \<open>
  C2. Over a batch of \<open>N\<close> samples, \<open>back_propagation\<close> computes, before weight decay,
  exactly the gradients the specification writes layer by layer: on a network with at
  least one layer whose lists have the lengths the assertions and the data model demand,
  the gradient phase returns \<open>(dW, dB)\<close> if and only if both lists have \<open>L\<close> entries and
  entry \<open>k\<close> of \<open>dW\<close> is \<open>dA_k\<^sup>T \<cdot> H[k] / N\<close> and entry \<open>k\<close> of \<open>dB\<close> is the columnwise
  sum of \<open>dA_k\<close> over \<open>N\<close>, where \<open>dA_k\<close> is the output-layer error for the last layer and
  \<open>(dA_{k+1} \<cdot> W[k+1])\<close> times the activation derivative at \<open>(A[k], H[k+1])\<close> below it.
\<close>

theorem layer_gradients_follow_spec:
  assumes "0 < L self" and "length H = L self + 1" and "length A = L self"
    and "length (W self) = L self" and "length (activation_functions self) = L self"
  shows "layer_gradients self N H A dA_L = Inr (dW, dB) \<longleftrightarrow>
           length dW = L self \<and> length dB = L self \<and>
           (\<forall>k<L self. \<exists>g b. dW ! k = Some g \<and> dB ! k = Some b
                \<and> spec_dW self N H A dA_L k = Inr g \<and> spec_dB self N H A dA_L k = Inr b)"
proof -
  define l where "l = L self - 1"
  define init where "init = (\<lambda>v::ndarray. (replicate (L self) (None::ndarray option))[l := Some v])"
  have l: "L self = Suc l" using assms(1) by (simp add: l_def)
  have lt: "l < L self" by (simp add: l)
  have last_k: "k = l" if "k < L self" "\<not> k < l" for k using that by (simp add: l)
  have init_len: "length (init v) = L self" for v by (simp add: init_def)
  have init_l: "init v ! l = Some v" for v using lt by (simp add: init_def)
  have top: "spec_dA self H A dA_L l = Inr dA_L" by (simp add: spec_dA_top l)
  have specW: "spec_dW self N H A dA_L l = weight_gradient dA_L (H ! l) N"
    and specB: "spec_dB self N H A dA_L l = bias_gradient dA_L N"
    by (simp_all add: spec_dW_def spec_dB_def top)
  have Hprev: "py_index H (- 2) = Inr (H ! l)"
    using py_index_penultimate[of H] assms(2) by (simp add: l)
  have set_last: "py_setitem (replicate (L self) None) (- 1) (Some v) = Inr (init v)" for v
    using py_setitem_last[of "replicate (L self) (None::ndarray option)" "Some v"] lt
    by (simp add: init_def l_def)
  have unfold: "layer_gradients self N H A dA_L =
      bindE (weight_gradient dA_L (H ! l) N) (\<lambda>g.
      bindE (bias_gradient dA_L N) (\<lambda>b.
      bindE (foldE (bp_step self H A N) (rev [0..<l]) (dA_L, init g, init b))
        (\<lambda>st. Inr (snd st))))"
    unfolding layer_gradients_def Hprev set_last l_def[symmetric]
    by (cases "weight_gradient dA_L (H ! l) N"; cases "bias_gradient dA_L N") simp_all
  let ?spec = "\<lambda>dW dB. length dW = L self \<and> length dB = L self \<and>
           (\<forall>k<L self. \<exists>g b. dW ! k = Some g \<and> dB ! k = Some b
                \<and> spec_dW self N H A dA_L k = Inr g \<and> spec_dB self N H A dA_L k = Inr b)"
  have sound: "?spec dW' dB'"
    if g: "weight_gradient dA_L (H ! l) N = Inr g" and b: "bias_gradient dA_L N = Inr b"
      and loop: "foldE (bp_step self H A N) (rev [0..<l]) (dA_L, init g, init b)
                   = Inr (dA', dW', dB')"
    for g b dA' dW' dB'
  proof -
    note S = bp_loop_sound[OF assms(2-5) lt top init_len init_len loop]
    show ?thesis
    proof (intro conjI allI impI)
      show "length dW' = L self" "length dB' = L self" using S by simp_all
    next
      fix k assume k: "k < L self"
      show "\<exists>g b. dW' ! k = Some g \<and> dB' ! k = Some b
                \<and> spec_dW self N H A dA_L k = Inr g \<and> spec_dB self N H A dA_L k = Inr b"
      proof (cases "k < l")
        case True
        with S k show ?thesis by blast
      next
        case False
        with k have "k = l" by (rule last_k)
        with S lt g b specW specB init_l show ?thesis by simp
      qed
    qed
  qed
  show ?thesis
  proof
    assume "layer_gradients self N H A dA_L = Inr (dW, dB)"
    then obtain g b dA' where "weight_gradient dA_L (H ! l) N = Inr g"
      "bias_gradient dA_L N = Inr b"
      "foldE (bp_step self H A N) (rev [0..<l]) (dA_L, init g, init b) = Inr (dA', dW, dB)"
      unfolding unfold by (auto simp: bindE_eq_Inr)
    then show "?spec dW dB" by (rule sound)
  next
    assume R: "?spec dW dB"
    then obtain g b where gb: "dW ! l = Some g" "dB ! l = Some b"
      "weight_gradient dA_L (H ! l) N = Inr g" "bias_gradient dA_L N = Inr b"
      using specW specB lt by metis
    have "\<forall>k<l. \<exists>g b. spec_dW self N H A dA_L k = Inr g \<and> spec_dB self N H A dA_L k = Inr b"
      using R lt by (meson less_trans)
    from bp_loop_complete[OF assms(2-5) lt top init_len init_len this]
    obtain st where loop: "foldE (bp_step self H A N) (rev [0..<l]) (dA_L, init g, init b) = Inr st"
      by blast
    obtain dA' dW' dB' where st: "st = (dA', dW', dB')" by (cases st) auto
    have S: "?spec dW' dB'" using sound[OF gb(3,4) loop[unfolded st]] .
    have "dW' = dW"
    proof (rule nth_equalityI)
      show "length dW' = length dW" using S R by simp
    next
      fix k assume "k < length dW'"
      then have k: "k < L self" using S by simp
      from S k obtain g1 where 1: "dW' ! k = Some g1" "spec_dW self N H A dA_L k = Inr g1" by blast
      from R k obtain g2 where 2: "dW ! k = Some g2" "spec_dW self N H A dA_L k = Inr g2" by blast
      from 1 2 show "dW' ! k = dW ! k" by simp
    qed
    moreover have "dB' = dB"
    proof (rule nth_equalityI)
      show "length dB' = length dB" using S R by simp
    next
      fix k assume "k < length dB'"
      then have k: "k < L self" using S by simp
      from S k obtain b1 where 1: "dB' ! k = Some b1" "spec_dB self N H A dA_L k = Inr b1" by blast
      from R k obtain b2 where 2: "dB ! k = Some b2" "spec_dB self N H A dA_L k = Inr b2" by blast
      from 1 2 show "dB' ! k = dB ! k" by simp
    qed
    ultimately show "layer_gradients self N H A dA_L = Inr (dW, dB)"
      unfolding unfold by (simp add: gb loop st)
  qed
qed

theorem layer_gradients_follow_spec_witness:
  "layer_gradients example_network 2 example_H example_A [[3, 11 / 2], [3 / 2, 5]]
     = Inr ([Some [[69 / 2, - (27 / 2)], [14, 28]], Some [[15 / 4, 3], [41 / 4, 11 / 2]]],
            [Some [[18, 14]], Some [[9 / 4, 21 / 4]]])
   \<and> spec_dW example_network 2 example_H example_A [[3, 11 / 2], [3 / 2, 5]] 0
     = Inr [[69 / 2, - (27 / 2)], [14, 28]]
   \<and> spec_dB example_network 2 example_H example_A [[3, 11 / 2], [3 / 2, 5]] 0
     = Inr [[18, 14]]"
proof -
  have ev: "layer_gradients example_network 2 example_H example_A [[3, 11 / 2], [3 / 2, 5]]
     = Inr ([Some [[69 / 2, - (27 / 2)], [14, 28]], Some [[15 / 4, 3], [41 / 4, 11 / 2]]],
            [Some [[18, 14]], Some [[9 / 4, 21 / 4]]])"
    by (simp add: layer_gradients_def weight_gradient_def bias_gradient_def bp_step_def
        activate_derivative_def multiply_def example_defs array_defs upt_rec numeral_2_eq_2)
  have pre: "0 < L example_network" "length example_H = L example_network + 1"
    "length example_A = L example_network" "length (W example_network) = L example_network"
    "length (activation_functions example_network) = L example_network"
    by (simp_all add: example_defs)
  from layer_gradients_follow_spec[OF pre, THEN iffD1, OF ev]
  have "\<forall>k<L example_network. \<exists>g b.
          [Some [[69 / 2, - (27 / 2)], [14, 28]], Some [[15 / 4, 3], [41 / 4, 11 / 2::real]]] ! k = Some g
          \<and> [Some [[18, 14]], Some [[9 / 4, 21 / 4::real]]] ! k = Some b
          \<and> spec_dW example_network 2 example_H example_A [[3, 11 / 2], [3 / 2, 5]] k = Inr g
          \<and> spec_dB example_network 2 example_H example_A [[3, 11 / 2], [3 / 2, 5]] k = Inr b"
    by blast
  with pre(1) have "\<exists>g b.
          [Some [[69 / 2, - (27 / 2)], [14, 28]], Some [[15 / 4, 3], [41 / 4, 11 / 2::real]]] ! 0 = Some g
          \<and> [Some [[18, 14]], Some [[9 / 4, 21 / 4::real]]] ! 0 = Some b
          \<and> spec_dW example_network 2 example_H example_A [[3, 11 / 2], [3 / 2, 5]] 0 = Inr g
          \<and> spec_dB example_network 2 example_H example_A [[3, 11 / 2], [3 / 2, 5]] 0 = Inr b"
    by blast
  with ev show ?thesis by simp
qed

text \<open>
  C3. For labels given as class indices, \<open>compute_loss\<close> expands them to one-hot rows
  before its formula, and so does the mean-squared-error branch of \<open>_loss_derivative\<close>;
  its cross-entropy branch does not. On two samples of two classes with labels \<open>[1, 0]\<close>
  the integer vector is broadcast as one row against the predictions, so both rows of the
  gradient carry the entry for class 0; on three samples of two classes the broadcast
  raises ValueError, in \<open>_loss_derivative\<close> and through it in \<open>back_propagation\<close> on a
  network whose last activation is not softmax.
\<close>

theorem cross_entropy_gradient_skips_one_hot:
  "fst (loss_derivative [[1 / 2, 1 / 2], [1 / 2, 1 / 2]] [1, 0] ''cross_entropy'' example_network)
     = Inr [[- (1000000000000000 / 500000000000001), 0],
            [- (1000000000000000 / 500000000000001), 0]]
   \<and> fst (loss_derivative [[1 / 2, 1 / 2], [1 / 2, 1 / 2], [1 / 2, 1 / 2]] [1, 0, 1]
            ''cross_entropy'' example_network)
     = Inl (ValueError ''operands could not be broadcast together'')
   \<and> fst (back_propagation [[1, 2], [3, - 4], [0, 1]] [1, 0, 1]
            [[[1, 2], [3, - 4], [0, 1]], [[1 / 2, 1 / 2], [1 / 2, 1 / 2], [1 / 2, 1 / 2]]]
            [[[0, 0], [0, 0], [0, 0]]] ''cross_entropy''
            (\<lparr>layer_sizes = [2, 2], L = 1, activation_functions = [''sigmoid''],
              LOG_EACH = False, W = [[[0, 0], [0, 0]]], B = [[[0, 0]]], weight_decay = 0,
              optimizer = None\<rparr> :: real network))
     = Inl (ValueError ''operands could not be broadcast together'')"
  by (simp add: loss_derivative_def divide_arr_def epsilon_def back_propagation_def
      output_error_def example_defs method_defs array_defs numeral_2_eq_2 numeral_3_eq_3 upt_rec)

text \<open>The gradient the code returns there is not \<open>-y_onehot / (y_pred + \<epsilon>)\<close>.\<close>

theorem cross_entropy_gradient_skips_one_hot_witness:
  "fst (one_hot [1, 0] example_network) = Inr [[0, 1], [1, 0]]
   \<and> fst (loss_derivative [[1 / 2, 1 / 2], [1 / 2, 1 / 2]] [1, 0] ''cross_entropy'' example_network)
     \<noteq> Inr (spec_cross_entropy_gradient [[0, 1], [1, 0]] [[1 / 2, 1 / 2], [1 / 2, 1 / 2]])"
  using cross_entropy_gradient_skips_one_hot
  by (simp add: spec_cross_entropy_gradient_def epsilon_def one_hot_def one_hot_row_def
      reading_def example_defs array_defs numeral_2_eq_2)

text \<open>
  C4. With a positive \<open>weight_decay\<close>, on a batch on which the gradients without decay
  are \<open>(dW0, dB0)\<close> and the weight of every layer is an array of the shape of its
  gradient, \<open>back_propagation\<close> returns the same \<open>dB0\<close> and weight gradients that are,
  entry by entry, those of \<open>dW0\<close> plus \<open>weight_decay\<close> times the weight.
\<close>

theorem weight_decay_adds_penalty:
  assumes "weight_decay self > 0"
    and "fst (back_propagation X y H A loss_type (self\<lparr>weight_decay := 0\<rparr>)) = Inr (dW0, dB0)"
    and "length (W self) = L self"
    and "\<forall>i<L self. shape (W self ! i) = shape (dW0 ! i) \<and> is_array (W self ! i)"
  shows "\<exists>dW. fst (back_propagation X y H A loss_type self) = Inr (dW, dB0)
           \<and> length dW = L self
           \<and> (\<forall>i<L self. shape (dW ! i) = shape (dW0 ! i)
                \<and> (\<forall>r<nrows (dW0 ! i). \<forall>c<ncols (dW0 ! i).
                      dW ! i ! r ! c = dW0 ! i ! r ! c + weight_decay self * W self ! i ! r ! c))"
proof -
  define dec where "dec = (\<lambda>i. map (\<lambda>r. map (\<lambda>c. dW0 ! i ! r ! c
                        + map_arr (\<lambda>w. weight_decay self * w) (W self ! i) ! r ! c)
                      [0..<ncols (dW0 ! i)]) [0..<nrows (dW0 ! i)])"
  from assms(2) obtain dA g where
    asserts: "length H = L self + 1 \<and> length A = L self \<and> nrows X = length y"
    and dA: "fst (output_error y H A loss_type self) = Inr dA"
    and g: "layer_gradients self (nrows X) H A dA = Inr g"
    and gW: "assigned (fst g) = Inr dW0" and gB: "assigned (snd g) = Inr dB0"
    by (auto simp: fst_back_propagation fst_output_error_weight_decay
        layer_gradients_weight_decay apply_weight_decay_def bindE_eq_Inr split: if_splits)
  from gW have fg: "fst g = map Some dW0" by (simp add: assigned_eq_Inr)
  have "length (fst g) = L self"
    using layer_gradients_lengths[of self "nrows X" H A dA "fst g" "snd g"] g by simp
  with fg have len: "length dW0 = L self" by simp
  have "foldE (decay_step self) [0..<L self] (map Some dW0)
          = Inr (map (\<lambda>i. Some (if i < L self then dec i else dW0 ! i)) [0..<length dW0])"
    unfolding dec_def using assms(3,4) len by (intro decay_loop) simp_all
  also have "map (\<lambda>i. Some (if i < L self then dec i else dW0 ! i)) [0..<length dW0]
          = map Some (map dec [0..<L self])"
    by (simp add: len)
  finally have decay: "apply_weight_decay self (fst g) = Inr (map Some (map dec [0..<L self]))"
    using assms(1,3) by (simp add: apply_weight_decay_def fg)
  have res: "fst (back_propagation X y H A loss_type self) = Inr (map dec [0..<L self], dB0)"
    using asserts dA g decay gB by (simp add: fst_back_propagation assigned_eq_Inr)
  have "shape (map dec [0..<L self] ! i) = shape (dW0 ! i)
        \<and> (\<forall>r<nrows (dW0 ! i). \<forall>c<ncols (dW0 ! i).
              map dec [0..<L self] ! i ! r ! c
                = dW0 ! i ! r ! c + weight_decay self * W self ! i ! r ! c)"
    if i: "i < L self" for i
  proof -
    from assms(4) i have sh: "shape (W self ! i) = shape (dW0 ! i)" and arr: "is_array (W self ! i)"
      by simp_all
    then have dims: "nrows (W self ! i) = nrows (dW0 ! i)" "ncols (W self ! i) = ncols (dW0 ! i)"
      by (simp_all add: shape_def)
    show ?thesis
      using i by (simp add: dec_def shape_tabulate map_arr_nth[OF arr] dims)
  qed
  with res show ?thesis by (intro exI[of _ "map dec [0..<L self]"]) simp
qed

theorem weight_decay_adds_penalty_witness:
  "\<exists>dW. fst (back_propagation example_X example_y example_H example_A ''mse''
               (example_network\<lparr>weight_decay := 1 / 2\<rparr>))
          = Inr (dW, [[[18, 14]], [[9 / 4, 21 / 4]]])
        \<and> length dW = 2
        \<and> dW ! 0 ! 0 ! 0 = 69 / 2 + 1 / 2 * 1
        \<and> dW ! 1 ! 1 ! 1 = 11 / 2 + 1 / 2 * 4"
proof -
  let ?self = "example_network\<lparr>weight_decay := 1 / 2\<rparr>"
  let ?dW0 = "[[[69 / 2, - (27 / 2)], [14, 28]], [[15 / 4, 3], [41 / 4, 11 / 2]]] :: ndarray list"
  let ?dB0 = "[[[18, 14]], [[9 / 4, 21 / 4]]] :: ndarray list"
  have h1: "weight_decay ?self > 0" by simp
  have h2: "fst (back_propagation example_X example_y example_H example_A ''mse''
                  (?self\<lparr>weight_decay := 0\<rparr>)) = Inr (?dW0, ?dB0)"
    using example_back_propagation[of 0] by simp
  have h3: "length (W ?self) = L ?self" by (simp add: example_defs)
  have h4: "\<forall>i<L ?self. shape (W ?self ! i) = shape (?dW0 ! i) \<and> is_array (W ?self ! i)"
    by (simp add: example_defs is_array_def array_defs numeral_2_eq_2 less_Suc_eq)
  from weight_decay_adds_penalty[OF h1 h2 h3 h4] obtain dW where
    res: "fst (back_propagation example_X example_y example_H example_A ''mse'' ?self)
            = Inr (dW, ?dB0)"
    and len: "length dW = L ?self"
    and el: "\<forall>i<L ?self. shape (dW ! i) = shape (?dW0 ! i)
                \<and> (\<forall>r<nrows (?dW0 ! i). \<forall>c<ncols (?dW0 ! i).
                      dW ! i ! r ! c = ?dW0 ! i ! r ! c + weight_decay ?self * W ?self ! i ! r ! c)"
    by blast
  have L2: "L ?self = 2" by (simp add: example_defs)
  from el L2 have "dW ! 0 ! 0 ! 0 = 69 / 2 + 1 / 2 * 1"
    by (simp add: example_defs array_defs)
  moreover from el[rule_format, of 1] L2 have "dW ! 1 ! 1 ! 1 = 11 / 2 + 1 / 2 * 4"
    by (simp add: example_defs array_defs)
  ultimately show ?thesis using res len L2 by auto
qed

text \<open>
  C5. With \<open>X_val\<close> and \<open>y_val\<close> both \<open>None\<close>, \<open>train\<close> never returns a history:
  whatever the network, the data and the other arguments, it raises, at the latest where
  the end of the first epoch calls \<open>self.predict(X_val)\<close>.
\<close>

theorem train_without_validation_fails:
  "isl (fst (train om perms callback X_train y_train None None batch_size num_epochs loss_type
               log_every self))"
proof -
  have loop: "isl (fst (train_loop om perms callback X_train y_train None None batch_size
                          num_epochs loss_type log_every s))" for s
  proof (cases "num_epochs \<le> 0")
    case True
    then have "isl (spacer num_epochs)" by (auto simp: spacer_def)
    then have "isl (fst (reading (\<lambda>self. spacer num_epochs) s'))" for s' :: "'a network"
      by simp
    then show ?thesis
      unfolding train_loop_def
      by (intro isl_bindM_right[of _ "reading (\<lambda>self. num_batches_of (nrows X_train) batch_size)"]
          isl_bindM_left)
  next
    case False
    then have ne: "[0..<nat num_epochs] \<noteq> []" by simp
    show ?thesis
      unfolding train_loop_def
      by (rule isl_bindM_right, rule isl_bindM_right, rule isl_bindM_right,
          rule isl_bindM_left, rule foldM_first_fails[OF ne],
          rule epoch_step_without_validation)
  qed
  show ?thesis
    unfolding train_def by (rule isl_bindM_right, rule loop)
qed

theorem train_without_validation_fails_witness:
  "isl (fst (train sgd_module (\<lambda>epoch. [1, 0]) None example_X example_y None None 2 1 ''mse'' 1
          example_network))
   \<and> fst (train sgd_module (\<lambda>epoch. [1, 0]) None example_X example_y None None 2 1 ''mse'' 1
          example_network) = Inl TypeError"
  using train_without_validation_fails[of sgd_module "\<lambda>epoch. [1, 0]" None example_X example_y
      2 1 "''mse''" 1 example_network] example_train_without_validation
  by simp

text \<open>
  C6, as the code has it. An unsupported activation name is accepted at construction and
  raises only when the network is first run.
\<close>

theorem unsupported_activation_accepted_at_construction:
  "NeuralNetwork_init (\<lambda>i r c. zeros r c) [2, 2] [''swish''] 0 ''random'' False
     = Inr (\<lparr>layer_sizes = [2, 2], L = 1, activation_functions = [''swish''], LOG_EACH = False,
            W = [[[0, 0], [0, 0]]], B = [[[0, 0]]], weight_decay = 0,
            optimizer = None\<rparr> :: real network)
   \<and> fst (forward_propagation [[1, 2]]
            (\<lparr>layer_sizes = [2, 2], L = 1, activation_functions = [''swish''], LOG_EACH = False,
              W = [[[0, 0], [0, 0]]], B = [[[0, 0]]], weight_decay = 0,
              optimizer = None\<rparr> :: real network))
     = Inl (ValueError ''Unsupported activation function: swish'')"
  by (simp add: NeuralNetwork_init_def new_network_def forward_propagation_def fp_step_def
      activate_def method_defs array_defs numeral_2_eq_2 upt_rec)

text \<open>
  C6, amended. At construction, a layer-size list whose length is not the number of
  activations plus one raises an AssertionError, an unsupported weight-initialisation
  name raises a ValueError naming it, and the activation names are stored unchecked. An
  unsupported activation name raises a ValueError naming it in \<open>activate\<close> and in
  \<open>_activate_derivative\<close>; an unsupported loss name raises a ValueError naming it in
  \<open>_loss_derivative\<close>, and in \<open>compute_loss\<close> once the labels have been expanded; an
  unsupported optimizer name raises a ValueError naming it in \<open>set_optimizer\<close>. The
  methods leave the network unchanged, and no name is replaced by a supported one.
\<close>

theorem invalid_configuration_errors:
  "(length layer_sizes' \<noteq> length activation_functions' + 1 \<longrightarrow>
      NeuralNetwork_init draw layer_sizes' activation_functions' weight_decay' weight_init
        LOG_EACH' = (Inl AssertionError :: error + 'o network))
   \<and> (length layer_sizes' = length activation_functions' + 1
        \<and> lower weight_init \<notin> {''random'', ''xavier''} \<longrightarrow>
      NeuralNetwork_init draw layer_sizes' activation_functions' weight_decay' weight_init
        LOG_EACH'
      = (Inl (ValueError (''Unsupported weight initialization: '' @ weight_init))
          :: error + 'o network))
   \<and> (length layer_sizes' = length activation_functions' + 1 \<and> lower weight_init = ''random'' \<longrightarrow>
      (\<exists>nn :: 'o network.
         NeuralNetwork_init draw layer_sizes' activation_functions' weight_decay' weight_init
           LOG_EACH' = Inr nn
         \<and> activation_functions nn = activation_functions'))
   \<and> (lower activation \<notin> {''sigmoid'', ''relu'', ''tanh'', ''softmax'', ''identity''} \<longrightarrow>
      activate A activation = Inl (ValueError (''Unsupported activation function: '' @ activation))
      \<and> activate_derivative A H activation
          = Inl (ValueError (''Unsupported activation function: '' @ activation)))
   \<and> (lower loss_type \<notin> {''cross_entropy'', ''mse'', ''mean_squared_error''} \<longrightarrow>
      loss_derivative y_pred y loss_type self
        = (Inl (ValueError (''Unsupported loss function: '' @ loss_type)), self)
      \<and> (\<forall>y1. fst (one_hot y self) = Inr y1 \<longrightarrow>
            compute_loss H_final y loss_type self
              = (Inl (ValueError (''Unsupported loss function: '' @ loss_type)), self)))
   \<and> (optimizer_dict ''name'' = Some (Str name)
        \<and> lower name \<notin> {''sgd'', ''momentum'', ''nesterov'', ''rmsprop'', ''adam'', ''nadam''} \<longrightarrow>
      set_optimizer om optimizer_dict self
        = (Inl (ValueError (''Unsupported optimizer: '' @ name)), self))"
proof (intro conjI impI allI)
  fix y1 assume "lower loss_type \<notin> {''cross_entropy'', ''mse'', ''mean_squared_error''}"
    and "fst (one_hot y self) = Inr y1"
  then show "compute_loss H_final y loss_type self
              = (Inl (ValueError (''Unsupported loss function: '' @ loss_type)), self)"
    by (simp add: compute_loss_def bindM_read_only[OF read_only_one_hot] reading_def Let_def)
next
  assume "optimizer_dict ''name'' = Some (Str name)
        \<and> lower name \<notin> {''sgd'', ''momentum'', ''nesterov'', ''rmsprop'', ''adam'', ''nadam''}"
  then show "set_optimizer om optimizer_dict self
        = (Inl (ValueError (''Unsupported optimizer: '' @ name)), self)"
    by (simp add: set_optimizer_def optimizer_map_def)
qed (auto simp: NeuralNetwork_init_def activate_def activate_derivative_def loss_derivative_def
      raise_def new_network_def)

theorem invalid_configuration_errors_witness:
  "NeuralNetwork_init (\<lambda>i r c. zeros r c) [2, 2] [] 0 ''random'' False
     = (Inl AssertionError :: error + real network)
   \<and> NeuralNetwork_init (\<lambda>i r c. zeros r c) [2, 2] [''relu''] 0 ''He'' False
     = (Inl (ValueError ''Unsupported weight initialization: He'') :: error + real network)
   \<and> (\<exists>nn :: real network.
         NeuralNetwork_init (\<lambda>i r c. zeros r c) [2, 2] [''swish''] 0 ''Random'' False = Inr nn
         \<and> activation_functions nn = [''swish''])
   \<and> activate [[1]] ''swish'' = Inl (ValueError ''Unsupported activation function: swish'')
   \<and> activate_derivative [[1]] [[1]] ''swish''
     = Inl (ValueError ''Unsupported activation function: swish'')
   \<and> loss_derivative [[6, 12], [4, 10]] example_y ''hinge'' example_network
     = (Inl (ValueError ''Unsupported loss function: hinge''), example_network)
   \<and> compute_loss [[6, 12], [4, 10]] example_y ''hinge'' example_network
     = (Inl (ValueError ''Unsupported loss function: hinge''), example_network)
   \<and> set_optimizer sgd_module [''name'' \<mapsto> Str ''Adagrad'', ''learning_rate'' \<mapsto> Num (1 / 100)]
       example_network
     = (Inl (ValueError ''Unsupported optimizer: Adagrad''), example_network)"
proof -
  note T = invalid_configuration_errors[where draw = "\<lambda>i r c. zeros r c" and weight_decay' = 0
      and LOG_EACH' = False and activation = "''swish''" and A = "[[1]]" and H = "[[1]]"
      and loss_type = "''hinge''" and y_pred = "[[6, 12], [4, 10]]" and H_final = "[[6, 12], [4, 10]]"
      and y = example_y and self = example_network and om = sgd_module
      and optimizer_dict = "[''name'' \<mapsto> Str ''Adagrad'', ''learning_rate'' \<mapsto> Num (1 / 100)]"
      and name = "''Adagrad''"]
  have oh: "fst (one_hot example_y example_network) = Inr [[0, 1], [1, 0]]"
    by (simp add: one_hot_def one_hot_row_def reading_def example_defs array_defs numeral_2_eq_2)
  have a: "NeuralNetwork_init (\<lambda>i r c. zeros r c) [2, 2] [] 0 ''random'' False
     = (Inl AssertionError :: error + real network)"
    using T[where layer_sizes' = "[2, 2]" and activation_functions' = "[]"
        and weight_init = "''random''" and 'o = real]
    by simp
  have b: "NeuralNetwork_init (\<lambda>i r c. zeros r c) [2, 2] [''relu''] 0 ''He'' False
     = (Inl (ValueError ''Unsupported weight initialization: He'') :: error + real network)"
    using T[where layer_sizes' = "[2, 2]" and activation_functions' = "[''relu'']"
        and weight_init = "''He''" and 'o = real]
    by (simp add: lower_def lower_char_def)
  have c: "\<exists>nn :: real network.
         NeuralNetwork_init (\<lambda>i r c. zeros r c) [2, 2] [''swish''] 0 ''Random'' False = Inr nn
         \<and> activation_functions nn = [''swish'']"
    using T[where layer_sizes' = "[2, 2]" and activation_functions' = "[''swish'']"
        and weight_init = "''Random''" and 'o = real]
    by (simp add: lower_def lower_char_def)
  have rest: "activate [[1]] ''swish'' = Inl (ValueError ''Unsupported activation function: swish'')
   \<and> activate_derivative [[1]] [[1]] ''swish''
     = Inl (ValueError ''Unsupported activation function: swish'')
   \<and> loss_derivative [[6, 12], [4, 10]] example_y ''hinge'' example_network
     = (Inl (ValueError ''Unsupported loss function: hinge''), example_network)
   \<and> compute_loss [[6, 12], [4, 10]] example_y ''hinge'' example_network
     = (Inl (ValueError ''Unsupported loss function: hinge''), example_network)
   \<and> set_optimizer sgd_module [''name'' \<mapsto> Str ''Adagrad'', ''learning_rate'' \<mapsto> Num (1 / 100)]
       example_network
     = (Inl (ValueError ''Unsupported optimizer: Adagrad''), example_network)"
    using T[where layer_sizes' = "[2, 2]" and activation_functions' = "[''swish'']"
        and weight_init = "''Random''" and 'o = real] oh
    by (simp add: lower_def lower_char_def)
  from a b c rest show ?thesis by blast
qed

text \<open>
  C7. On a network without optimizer, \<open>train\<close> is \<open>train\<close> on the same network with
  \<open>SGDOptimizer(W, B, name='sgd', learning_rate=0.01, LOG_EACH=...)\<close> attached, or
  the exception of that constructor: the default is attached before anything else
  happens. On a network with an optimizer the check changes nothing, and every property
  of the optimizer that its \<open>update\<close> method keeps holds of the attached optimizer when
  \<open>train\<close> ends, by return or by exception: \<open>train\<close> itself never assigns another.
\<close>

theorem train_default_optimizer:
  "(optimizer self = None \<longrightarrow>
      train om perms callback X_train y_train X_val y_val batch_size num_epochs
        loss_type log_every self
      = (case opt_new om SGDOptimizer (W self) (B self)
                [''name'' \<mapsto> Str ''sgd'', ''learning_rate'' \<mapsto> Num (1 / 100),
                 ''LOG_EACH'' \<mapsto> Bool (LOG_EACH self)] of
           Inl e \<Rightarrow> (Inl e, self)
         | Inr opt \<Rightarrow>
             train om perms callback X_train y_train X_val y_val batch_size num_epochs
               loss_type log_every (self\<lparr>optimizer := Some opt\<rparr>)))
   \<and> (\<forall>opt. optimizer self = Some opt \<longrightarrow>
          ensure_optimizer om self = (Inr (), self)
          \<and> (P opt \<and> (\<forall>o1 w b dw db i o2 w' b'.
                         P o1 \<and> opt_update om o1 w b dw db i = Inr (o2, w', b') \<longrightarrow> P o2) \<longrightarrow>
               (\<exists>opt'. optimizer (snd (train om perms callback X_train y_train X_val y_val
                                          batch_size num_epochs loss_type log_every self))
                         = Some opt' \<and> P opt')))"
proof (intro conjI impI allI)
  assume none: "optimizer self = None"
  show "train om perms callback X_train y_train X_val y_val batch_size num_epochs
              loss_type log_every self
            = (case opt_new om SGDOptimizer (W self) (B self)
                      [''name'' \<mapsto> Str ''sgd'', ''learning_rate'' \<mapsto> Num (1 / 100),
                       ''LOG_EACH'' \<mapsto> Bool (LOG_EACH self)] of
                 Inl e \<Rightarrow> (Inl e, self)
               | Inr opt \<Rightarrow>
                   train om perms callback X_train y_train X_val y_val batch_size num_epochs
                     loss_type log_every (self\<lparr>optimizer := Some opt\<rparr>))"
    unfolding train_def
    by (simp add: bindM_def ensure_optimizer_default[OF none] ensure_optimizer_attached
        split: sum.splits)
next
  fix opt assume "optimizer self = Some opt"
  then show "ensure_optimizer om self = (Inr (), self)"
    by (simp add: ensure_optimizer_attached)
next
  fix opt
  assume a: "optimizer self = Some opt"
    and b: "P opt \<and> (\<forall>o1 w b dw db i o2 w' b'.
                         P o1 \<and> opt_update om o1 w b dw db i = Inr (o2, w', b') \<longrightarrow> P o2)"
  let ?I = "\<lambda>self. \<exists>opt. optimizer self = Some opt \<and> P opt"
  from b have kept: "\<And>o1 w b dw db i o2 w' b'.
      P o1 \<Longrightarrow> opt_update om o1 w b dw db i = Inr (o2, w', b') \<Longrightarrow> P o2"
    by blast
  have ens: "preserves ?I (ensure_optimizer om)"
    by (auto simp: preserves_def ensure_optimizer_attached)
  note loop = preserves_train_loop[of P om, OF kept]
  have "preserves ?I (train om perms callback X_train y_train X_val y_val batch_size num_epochs
                        loss_type log_every)"
    unfolding train_def by (intro preserves_bindM ens loop)
  with a b show "\<exists>opt'. optimizer (snd (train om perms callback X_train y_train X_val y_val
                                         batch_size num_epochs loss_type log_every self))
                        = Some opt' \<and> P opt'"
    unfolding preserves_def by blast
qed

theorem train_default_optimizer_witness:
  "train sgd_module (\<lambda>epoch. [1, 0]) None example_X example_y (Some example_X) (Some example_y)
     2 1 ''mse'' 1 example_network
   = train sgd_module (\<lambda>epoch. [1, 0]) None example_X example_y (Some example_X) (Some example_y)
       2 1 ''mse'' 1 (example_network\<lparr>optimizer := Some (1 / 100)\<rparr>)
   \<and> optimizer (snd (train sgd_module (\<lambda>epoch. [1, 0]) None example_X example_y
                        (Some example_X) (Some example_y) 2 1 ''mse'' 1
                        (example_network\<lparr>optimizer := Some (1 / 100)\<rparr>)))
     = Some (1 / 100)"
proof -
  have upd: "\<forall>o1 w b dw db i o2 w' b'.
      o1 = 1 / 100 \<and> opt_update sgd_module o1 w b dw db i = Inr (o2, w', b') \<longrightarrow> o2 = 1 / 100"
    by (auto simp: sgd_module_def sgd_update_def bindE_eq_Inr)
  have new: "opt_new sgd_module SGDOptimizer (W example_network) (B example_network)
               [''name'' \<mapsto> Str ''sgd'', ''learning_rate'' \<mapsto> Num (1 / 100),
                ''LOG_EACH'' \<mapsto> Bool (LOG_EACH example_network)] = Inr (1 / 100)"
    by (simp add: sgd_module_def sgd_new_def)
  have none: "optimizer example_network = None" by (simp add: example_defs)
  from train_default_optimizer[where self = example_network and om = sgd_module
      and perms = "\<lambda>epoch. [1, 0]" and callback = None
      and X_train = example_X and y_train = example_y and X_val = "Some example_X"
      and y_val = "Some example_y" and batch_size = 2 and num_epochs = 1
      and loss_type = "''mse''" and log_every = 1] none new
  have 1: "train sgd_module (\<lambda>epoch. [1, 0]) None example_X example_y (Some example_X)
       (Some example_y) 2 1 ''mse'' 1 example_network
     = train sgd_module (\<lambda>epoch. [1, 0]) None example_X example_y (Some example_X)
         (Some example_y) 2 1 ''mse'' 1 (example_network\<lparr>optimizer := Some (1 / 100)\<rparr>)"
    by simp
  have attached: "optimizer (example_network\<lparr>optimizer := Some (1 / 100)\<rparr>) = Some (1 / 100)"
    by simp
  note kept = train_default_optimizer[where self = "example_network\<lparr>optimizer := Some (1 / 100)\<rparr>"
      and om = sgd_module and P = "\<lambda>lr. lr = 1 / 100"
      and perms = "\<lambda>epoch. [1, 0]" and callback = None
      and X_train = example_X and y_train = example_y and X_val = "Some example_X"
      and y_val = "Some example_y" and batch_size = 2 and num_epochs = 1
      and loss_type = "''mse''" and log_every = 1,
      THEN conjunct2, rule_format, OF attached, THEN conjunct2, rule_format]
  have "\<exists>opt'. optimizer (snd (train sgd_module (\<lambda>epoch. [1, 0]) None example_X example_y
                        (Some example_X) (Some example_y) 2 1 ''mse'' 1
                        (example_network\<lparr>optimizer := Some (1 / 100)\<rparr>)))
     = Some opt' \<and> opt' = 1 / 100"
    by (rule kept) (intro conjI refl upd)
  then have 2: "optimizer (snd (train sgd_module (\<lambda>epoch. [1, 0]) None example_X example_y
                        (Some example_X) (Some example_y) 2 1 ''mse'' 1
                        (example_network\<lparr>optimizer := Some (1 / 100)\<rparr>)))
     = Some (1 / 100)"
    by blast
  from 1 2 show ?thesis by simp
qed

text \<open>
  C8. For labels that are class indices in range for the output width, \<open>one_hot\<close>
  returns an array whose row-wise argmax is the label vector again, and whose row \<open>i\<close>
  has the output width, a one at column \<open>y[i]\<close> and zeros elsewhere.
\<close>

theorem one_hot_argmax_roundtrip:
  assumes "layer_sizes self \<noteq> []"
    and "\<forall>v\<in>set y. 0 \<le> v \<and> v < int (last (layer_sizes self))"
  shows "\<exists>M. fst (one_hot y self) = Inr M \<and> argmax_axis1 M = Inr (map nat y)
           \<and> length M = length y
           \<and> (\<forall>i<length y. length (M ! i) = last (layer_sizes self)
                \<and> (\<forall>j<last (layer_sizes self). M ! i ! j = (if int j = y ! i then 1 else 0)))"
proof -
  define C where "C = last (layer_sizes self)"
  define M where "M = map (one_hot_row C) y"
  have valid: "\<And>v. v \<in> set y \<Longrightarrow> 0 \<le> v \<and> v < int C"
    using assms(2) by (simp add: C_def)
  then have "\<forall>v\<in>set y. - int C \<le> v \<and> v < int C" by fastforce
  then have 1: "fst (one_hot y self) = Inr M"
    using assms(1) by (simp add: one_hot_def reading_def py_index_last bindE_def M_def C_def)
  have 2: "argmax_axis1 M = Inr (map nat y)"
    unfolding argmax_axis1_def M_def
    by (rule mapE_map_ok) (simp add: argmax_one_hot_row valid)
  have 3: "length M = length y" by (simp add: M_def)
  have 4: "length (M ! i) = C \<and> (\<forall>j<C. M ! i ! j = (if int j = y ! i then 1 else 0))"
    if "i < length y" for i
  proof -
    from that have "y ! i \<in> set y" by simp
    then have v: "0 \<le> y ! i" "y ! i < int C" using valid by auto
    then show ?thesis using that by (simp add: M_def one_hot_row_nth) (simp add: one_hot_row_def)
  qed
  from 1 2 3 4 show ?thesis unfolding C_def by blast
qed

theorem one_hot_argmax_roundtrip_witness:
  "fst (one_hot example_y example_network) = Inr [[0, 1], [1, 0]]
   \<and> argmax_axis1 [[0, 1], [1, 0]] = Inr [1, 0]"
proof -
  have "layer_sizes example_network \<noteq> []"
    and "\<forall>v\<in>set example_y. 0 \<le> v \<and> v < int (last (layer_sizes example_network))"
    by (simp_all add: example_defs)
  from one_hot_argmax_roundtrip[OF this] obtain M where
    M: "fst (one_hot example_y example_network) = Inr M"
    and am: "argmax_axis1 M = Inr (map nat example_y)"
    by blast
  have "fst (one_hot example_y example_network) = Inr [[0, 1], [1, 0]]"
    by (simp add: one_hot_def one_hot_row_def reading_def example_defs array_defs numeral_2_eq_2)
  with M am show ?thesis by (simp add: example_defs)
qed

text \<open>
  C9. The shuffle of an epoch indexes the inputs and the labels by the same permutation:
  when \<open>permutation\<close> is a permutation of the sample indices, the shuffle succeeds and
  the multiset of (input, label) pairs is the same before and after.
\<close>

theorem shuffle_keeps_pairs:
  assumes "mset permutation = mset [0..<length X_train]" and "length X_train \<le> length y_train"
  shows "shuffle permutation X_train y_train
           = Inr (map (\<lambda>i. X_train ! i) permutation, map (\<lambda>i. y_train ! i) permutation)
         \<and> mset (zip (map (\<lambda>i. X_train ! i) permutation) (map (\<lambda>i. y_train ! i) permutation))
           = mset (zip X_train y_train)"
proof -
  have set_p: "set permutation = {0..<length X_train}"
    using assms(1) by (metis mset_eq_setD set_upt)
  then have "\<forall>i\<in>set permutation. i < length X_train" "\<forall>i\<in>set permutation. i < length y_train"
    using assms(2) by auto
  then have 1: "shuffle permutation X_train y_train
           = Inr (map (\<lambda>i. X_train ! i) permutation, map (\<lambda>i. y_train ! i) permutation)"
    by (simp add: shuffle_def take_indices_def bindE_def)
  have "zip (map (\<lambda>i. X_train ! i) permutation) (map (\<lambda>i. y_train ! i) permutation)
          = map (\<lambda>i. (X_train ! i, y_train ! i)) permutation"
    by (simp add: zip_map_map zip_same_conv_map)
  then have "mset (zip (map (\<lambda>i. X_train ! i) permutation) (map (\<lambda>i. y_train ! i) permutation))
          = image_mset (\<lambda>i. (X_train ! i, y_train ! i)) (mset permutation)"
    by simp
  also have "\<dots> = mset (map (\<lambda>i. (X_train ! i, y_train ! i)) [0..<length X_train])"
    using assms(1) by simp
  also have "\<dots> = mset (zip X_train y_train)"
    using assms(2) by (simp add: zip_as_map[of X_train y_train] min_def)
  finally show ?thesis using 1 by simp
qed

theorem shuffle_keeps_pairs_witness:
  "shuffle [1, 0] example_X example_y = Inr ([[3, - 4], [1, 2]], [0, 1])
   \<and> mset (zip [[3, - 4], [1, 2]] [0, 1]) = mset (zip example_X example_y)"
  using shuffle_keeps_pairs[of "[1, 0]" example_X example_y]
  by (simp add: example_defs upt_rec)

text \<open>
  C10. \<open>forward_propagation\<close>, \<open>predict\<close>, \<open>compute_loss\<close> and \<open>compute_accuracy\<close> leave
  the network as they found it, whether they return or raise: weights, biases, the
  attached optimizer and every other field.
\<close>

theorem readouts_leave_network_unchanged:
  "snd (forward_propagation X self) = self \<and> snd (predict X self) = self
   \<and> snd (compute_loss H_final y loss_type self) = self
   \<and> snd (compute_accuracy X y self) = self"
  by (simp add: read_onlyD read_only_forward_propagation read_only_predict
      read_only_compute_loss read_only_compute_accuracy)

theorem readouts_leave_network_unchanged_witness:
  "snd (forward_propagation example_X example_network) = example_network
   \<and> snd (predict example_X example_network) = example_network
   \<and> snd (compute_loss [[6, 12], [4, 10]] example_y ''mse'' example_network) = example_network
   \<and> snd (compute_accuracy example_X example_y example_network) = example_network"
  using readouts_leave_network_unchanged[of example_X example_network "[[6, 12], [4, 10]]"
      example_y "''mse''"] .

end
